theory Spec2Isabelle
  imports Main "HOL-Library.AList"
begin

section \<open>JavaScript values\<close>

text \<open>
  The library \<^verbatim>\<open>angular-api-provider.js\<close> moves JSON-like data between its callers and
  an HTTP resource. A value is a tree: the primitives, a user function (named by a
  number; what it does when called is given by the host, below), an array, or a plain
  object with its own properties in insertion order. Numbers are integers (no NaN).
\<close>

datatype jsval =
    VUndefined
  | VNull
  | VBool bool
  | VNum int
  | VStr string
  | VFun nat
  | VArr "jsval list"
  | VObj "(string \<times> jsval) list"

type_synonym fields = "(string \<times> jsval) list"

text \<open>What a \<^verbatim>\<open>throw\<close> carries: the engine's TypeError (calling what is not a function,
  reading a property of \<^verbatim>\<open>undefined\<close>), or a value thrown by user code.\<close>

datatype jserror = TypeError | Thrown jsval

text \<open>JavaScript's ToBoolean, as \<^verbatim>\<open>if (x)\<close>, \<^verbatim>\<open>x && y\<close> and \<^verbatim>\<open>x || y\<close> apply it.\<close>

fun truthy :: "jsval \<Rightarrow> bool" where
  "truthy VUndefined = False"
| "truthy VNull = False"
| "truthy (VBool b) = b"
| "truthy (VNum n) = (n \<noteq> 0)"
| "truthy (VStr s) = (s \<noteq> [])"
| "truthy (VFun f) = True"
| "truthy (VArr xs) = True"
| "truthy (VObj fs) = True"

text \<open>Reading a named property \<^verbatim>\<open>x.k\<close>: an object's own property, \<^verbatim>\<open>undefined\<close> when it has
  none. (Built-in members of arrays, strings and functions are not modelled; the
  library reads only \<^verbatim>\<open>model\<close>, \<^verbatim>\<open>method\<close>, \<^verbatim>\<open>data\<close>, \<^verbatim>\<open>afterLoad\<close> and \<^verbatim>\<open>beforeSave\<close>.)\<close>

fun get_prop :: "jsval \<Rightarrow> string \<Rightarrow> jsval" where
  "get_prop (VObj fs) k = (case map_of fs k of Some v \<Rightarrow> v | None \<Rightarrow> VUndefined)"
| "get_prop v k = VUndefined"

text \<open>Assigning \<^verbatim>\<open>x.k = v\<close>: an existing property keeps its place, a new one is added
  last; on a value that is not a plain object the assignment stores nothing.\<close>

fun set_prop :: "jsval \<Rightarrow> string \<Rightarrow> jsval \<Rightarrow> jsval" where
  "set_prop (VObj fs) k v = VObj (AList.update k v fs)"
| "set_prop x k v = x"

text \<open>The decimal numeral of an array index, as a property name.\<close>

fun index_key :: "nat \<Rightarrow> string" where
  "index_key n =
     (if n < 10 then [''0123456789'' ! n]
      else index_key (n div 10) @ [''0123456789'' ! (n mod 10)])"

text \<open>The own enumerable properties \<^verbatim>\<open>angular.forEach\<close> visits: an object's properties
  in order, an array's elements under their indices, nothing for a primitive.\<close>

fun own_props :: "jsval \<Rightarrow> fields" where
  "own_props (VObj fs) = fs"
| "own_props (VArr xs) = zip (map index_key [0..<length xs]) xs"
| "own_props v = []"

text \<open>\<^verbatim>\<open>angular.extend(dst, src)\<close> (AngularJS, not part of this repository): every own
  property of \<^verbatim>\<open>src\<close> is assigned onto \<^verbatim>\<open>dst\<close>, in order; \<^verbatim>\<open>dst\<close> is returned.\<close>

definition angular_extend :: "fields \<Rightarrow> jsval \<Rightarrow> fields" where
  "angular_extend dst src = fold (\<lambda>(k, v). AList.update k v) (own_props src) dst"

text \<open>\<^verbatim>\<open>String.prototype.toUpperCase\<close> on ASCII text (HTTP method names are ASCII): the
  letters a to z are raised, every other character is kept.\<close>

definition upper_char :: "char \<Rightarrow> char" where
  "upper_char c =
     (case map_of (zip ''abcdefghijklmnopqrstuvwxyz'' ''ABCDEFGHIJKLMNOPQRSTUVWXYZ'') c of
        Some u \<Rightarrow> u
      | None \<Rightarrow> c)"

definition toUpperCase :: "string \<Rightarrow> string" where
  "toUpperCase s = map upper_char s"


section \<open>ApiEndpointConfig\<close>

text \<open>
  \<^verbatim>\<open>ApiEndpointConfig.prototype\<close> carries the methods \<^verbatim>\<open>route\<close>, \<^verbatim>\<open>model\<close>, \<^verbatim>\<open>addHttpAction\<close>
  and \<^verbatim>\<open>enableQuery\<close>. The first two store their argument in an own property of the
  same name (\<^verbatim>\<open>this.route = route\<close>, \<^verbatim>\<open>this.model = model\<close>), so the name \<^verbatim>\<open>route\<close> (and
  \<^verbatim>\<open>model\<close>) of a config resolves either to the prototype's method (\<open>Proto\<close>) or to
  the own property that hides it (\<open>Own v\<close>). The action map \<^verbatim>\<open>this.actions\<close> is an object
  keyed by action name, each action a plain object.
\<close>

datatype slot = Proto | Own jsval

record config =
  route_slot :: slot
  model_slot :: slot
  actions :: "(string \<times> fields) list"

text \<open>A method of the config returns \<^verbatim>\<open>this\<close> or some other value.\<close>

datatype retval = This | Value jsval

text \<open>
  \<^verbatim>\<open>
  app.ApiEndpointConfig.prototype.addHttpAction = function(method, name, params, options) {
    this.actions[name] = angular.extend({
      method: method.toUpperCase(),
      params: params
    }, options);
    return this;
  };
  \<close>
  The function is a state transformer of the config; its return value is \<^verbatim>\<open>this\<close>.
\<close>

definition addHttpAction :: "string \<Rightarrow> string \<Rightarrow> jsval \<Rightarrow> jsval \<Rightarrow> config \<Rightarrow> config" where
  "addHttpAction method name params options c =
     c\<lparr>actions :=
         AList.update name
           (angular_extend [(''method'', VStr (toUpperCase method)), (''params'', params)] options)
           (actions c)\<rparr>"

text \<open>
  \<^verbatim>\<open>
  app.ApiEndpointConfig.prototype.enableQuery = function(name) {
    name = name || 'query';
    this.actions[name] = this.actions[name] || {};
    this.actions[name].isArray = true;
    return this;
  };
  \<close>
  The optional name is \<open>None\<close> when the argument is left out; the empty string is
  falsy as well.
\<close>

definition enableQuery :: "string option \<Rightarrow> config \<Rightarrow> config" where
  "enableQuery name c =
     (let n = (case name of None \<Rightarrow> ''query'' | Some s \<Rightarrow> if s = [] then ''query'' else s);
          a = (case map_of (actions c) n of Some a \<Rightarrow> a | None \<Rightarrow> [])
      in c\<lparr>actions := AList.update n (AList.update ''isArray'' (VBool True) a) (actions c)\<rparr>)"

text \<open>
  The constructor: an empty action map, then one \<^verbatim>\<open>addHttpAction(method, alias)\<close> for
  each entry of \<^verbatim>\<open>defaultActions\<close>, in the order of the object literal (\<^verbatim>\<open>angular.forEach\<close>
  hands the callback the value, here the alias, and the key, here the method).
\<close>

definition defaultActions :: "(string \<times> string) list" where
  "defaultActions =
     [(''GET'', ''get''), (''PUT'', ''update''), (''POST'', ''save''),
      (''PATCH'', ''patch''), (''DELETE'', ''remove'')]"

definition ApiEndpointConfig :: config where
  "ApiEndpointConfig =
     fold (\<lambda>(method, alias). addHttpAction method alias VUndefined VUndefined)
       defaultActions
       \<lparr>route_slot = Proto, model_slot = Proto, actions = []\<rparr>"


section \<open>The host: user code and the AngularJS services\<close>

text \<open>
  The library calls code it does not contain: user functions (model constructors, the
  hooks \<^verbatim>\<open>afterLoad\<close> and \<^verbatim>\<open>beforeSave\<close>), \<^verbatim>\<open>$injector.instantiate\<close> and the \<^verbatim>\<open>$resource\<close>
  service. They are parameters of the model, collected in one record; every theorem
  below that is stated for a host \<open>h\<close> holds for every host.
  \<^item> \<open>invoke f arg c\<close>: user function \<open>f\<close> called as a method of a config (\<^verbatim>\<open>this\<close> is the
    config) with one argument: what it returns or throws, and the config afterwards.
  \<^item> \<open>instantiate m\<close>: \<^verbatim>\<open>$injector.instantiate(m)\<close>, the new instance with the members it
    shows (those of its prototype among them), or the error thrown.
  \<^item> \<open>run f obj\<close>: user function \<open>f\<close> called as a method of the object \<open>obj\<close> with no
    argument: the object as the call leaves it, or the error thrown. The hooks'
    return values are not used by the library.
  \<^item> \<open>transport action params data heap\<close>: \<^verbatim>\<open>resource[action](params, data).$promise\<close>, as it
    settles: the response object it resolves with, or the rejection. The resource
    offers a callable for every action it was built with.
\<close>

type_synonym addr = nat

text \<open>
  What a member of an endpoint is called with. The source's annotations give params
  and data the type \<^verbatim>\<open>{Object=}\<close>: an argument left out (\<^verbatim>\<open>undefined\<close>) or a reference to an
  object of the store. A member that \<^verbatim>\<open>angular.bind\<close> made puts the action's name, a
  string, in front of the arguments, so a string can reach the place of params or data.
\<close>

datatype jsarg = Undef | Text string | Ref addr

text \<open>A promise is modelled by how it settles.\<close>

datatype 'a promise = Resolved 'a | Rejected jserror

record host =
  invoke :: "nat \<Rightarrow> jsval \<Rightarrow> config \<Rightarrow> (jserror + retval) \<times> config"
  instantiate :: "slot \<Rightarrow> jserror + fields"
  run :: "nat \<Rightarrow> fields \<Rightarrow> jserror + fields"
  transport :: "string \<Rightarrow> jsarg \<Rightarrow> jsarg \<Rightarrow> (addr \<Rightarrow> jsval) \<Rightarrow> fields promise"


section \<open>The builder methods route and model\<close>

text \<open>A call \<^verbatim>\<open>v(arg)\<close> with \<^verbatim>\<open>this\<close> a config: a user function runs, anything else is not
  callable.\<close>

definition call_value :: "host \<Rightarrow> jsval \<Rightarrow> jsval \<Rightarrow> config \<Rightarrow> (jserror + retval) \<times> config" where
  "call_value h v arg c = (case v of VFun f \<Rightarrow> invoke h f arg c | _ \<Rightarrow> (Inl TypeError, c))"

text \<open>
  \<^verbatim>\<open>
  app.ApiEndpointConfig.prototype.route = function(route) {
    this.route = route;
    return this;
  };
  \<close>
  \<open>route h r c\<close> is the call \<^verbatim>\<open>c.route(r)\<close>: the name is looked up on the config first.
  While no own property hides it, the prototype's method runs; once \<^verbatim>\<open>this.route\<close> has
  been assigned, the name denotes the stored value, and the call applies that value.
\<close>

definition route :: "host \<Rightarrow> jsval \<Rightarrow> config \<Rightarrow> (jserror + retval) \<times> config" where
  "route h r c =
     (case route_slot c of
        Proto \<Rightarrow> (Inr This, c\<lparr>route_slot := Own r\<rparr>)
      | Own v \<Rightarrow> call_value h v r c)"

text \<open>
  \<^verbatim>\<open>
  app.ApiEndpointConfig.prototype.model = function(model) {
    this.model = model;
    return this;
  };
  \<close>
\<close>

definition model :: "host \<Rightarrow> jsval \<Rightarrow> config \<Rightarrow> (jserror + retval) \<times> config" where
  "model h m c =
     (case model_slot c of
        Proto \<Rightarrow> (Inr This, c\<lparr>model_slot := Own m\<rparr>)
      | Own v \<Rightarrow> call_value h v m c)"


section \<open>ApiProvider\<close>

text \<open>
  The provider holds the base route and the map \<^verbatim>\<open>endpoints\<close> from names to config
  objects. Configs are objects with identity: \<open>configs\<close> is the store that holds them,
  \<open>next_config\<close> the next unused reference, and \<^verbatim>\<open>endpoints\<close> maps a name to a reference.
\<close>

record provider =
  baseRoute :: string
  endpoints :: "(string \<times> addr) list"
  configs :: "addr \<Rightarrow> config option"
  next_config :: addr

definition ApiProvider :: provider where
  "ApiProvider = \<lparr>baseRoute = [], endpoints = [], configs = (\<lambda>a. None), next_config = 0\<rparr>"

definition setBaseRoute :: "string \<Rightarrow> provider \<Rightarrow> provider" where
  "setBaseRoute r s = s\<lparr>baseRoute := r\<rparr>"

text \<open>
  \<^verbatim>\<open>
  app.ApiProvider.prototype.endpoint = function(name) {
    var endpointConfig = new app.ApiEndpointConfig();
    this.endpoints[name] = endpointConfig;
    return endpointConfig;
  };
  \<close>
  Returns the reference to the config it created, and the provider afterwards.
\<close>

definition endpoint :: "string \<Rightarrow> provider \<Rightarrow> addr \<times> provider" where
  "endpoint name s =
     (next_config s,
      s\<lparr>endpoints := AList.update name (next_config s) (endpoints s),
        configs := (configs s)(next_config s \<mapsto> ApiEndpointConfig),
        next_config := Suc (next_config s)\<rparr>)"

text \<open>A method call through a reference \<open>a\<close>: the method runs on the config the store
  holds there and the store keeps the config it leaves; a returned \<^verbatim>\<open>this\<close> is the
  reference itself. (A reference the store does not hold is no object: TypeError.)\<close>

datatype hval = Handle addr | Plain jsval

definition through ::
  "addr \<Rightarrow> (config \<Rightarrow> (jserror + retval) \<times> config) \<Rightarrow> provider \<Rightarrow> (jserror + hval) \<times> provider" where
  "through a m s =
     (case configs s a of
        None \<Rightarrow> (Inl TypeError, s)
      | Some c \<Rightarrow>
          (case m c of
             (Inl e, c') \<Rightarrow> (Inl e, s\<lparr>configs := (configs s)(a \<mapsto> c')\<rparr>)
           | (Inr This, c') \<Rightarrow> (Inr (Handle a), s\<lparr>configs := (configs s)(a \<mapsto> c')\<rparr>)
           | (Inr (Value v), c') \<Rightarrow> (Inr (Plain v), s\<lparr>configs := (configs s)(a \<mapsto> c')\<rparr>)))"


section \<open>ApiEndpoint\<close>

text \<open>
  \<^verbatim>\<open>
  angular.forEach(endpointConfig.actions, function(action, actionName) {
    var actionMethod = self.request;
    if (action.model) {
      if (action.method === 'GET') {
        actionMethod = self.getRequestWithModel;
      } else if (action.method === 'PUT' || action.method === 'POST') {
        actionMethod = self.saveRequestWithModel;
      }
    }
    self[actionName] = angular.bind(self, actionMethod, actionName);
  });
  \<close>
  \<open>actionMethod\<close> is the choice the callback makes for one action: which of the three
  properties of \<^verbatim>\<open>self\<close> it reads. The test reads the property \<^verbatim>\<open>model\<close> of the action object.
\<close>

datatype strategy = Request | GetRequestWithModel | SaveRequestWithModel

definition actionMethod :: "fields \<Rightarrow> strategy" where
  "actionMethod action =
     (if truthy (get_prop (VObj action) ''model'') then
        (if get_prop (VObj action) ''method'' = VStr ''GET'' then GetRequestWithModel
         else if get_prop (VObj action) ''method'' = VStr ''PUT''
                 \<or> get_prop (VObj action) ''method'' = VStr ''POST'' then SaveRequestWithModel
         else Request)
      else Request)"

text \<open>
  The function a property of the endpoint can hold: a method of the prototype, or
  \<^verbatim>\<open>angular.bind(self, f, name)\<close>, which calls \<open>f\<close> on the endpoint with \<open>name\<close> put in front
  of the arguments it is given.
\<close>

datatype callable = Method strategy | Bound callable string

fun method_name :: "strategy \<Rightarrow> string" where
  "method_name Request = ''request''"
| "method_name GetRequestWithModel = ''getRequestWithModel''"
| "method_name SaveRequestWithModel = ''saveRequestWithModel''"

text \<open>
  \<^verbatim>\<open>self.request\<close>, \<^verbatim>\<open>self.getRequestWithModel\<close>, \<^verbatim>\<open>self.saveRequestWithModel\<close>: the endpoint's own
  property of that name when an action of that name has been attached (the assignment
  \<^verbatim>\<open>self[actionName] = ...\<close> hides the prototype's method), the prototype's method
  otherwise. \<open>ms\<close> are the members attached so far.
\<close>

definition this_method :: "(string \<times> callable) list \<Rightarrow> strategy \<Rightarrow> callable" where
  "this_method ms s = (case map_of ms (method_name s) of Some c \<Rightarrow> c | None \<Rightarrow> Method s)"

text \<open>One round of the loop: the method is read from the endpoint as it is then, bound
  to the action's name and stored under that name.\<close>

definition attach :: "(string \<times> callable) list \<Rightarrow> string \<times> fields \<Rightarrow> (string \<times> callable) list" where
  "attach ms = (\<lambda>(actionName, action).
     AList.update actionName (Bound (this_method ms (actionMethod action)) actionName) ms)"

text \<open>
  The endpoint keeps the config, the resource (\<^verbatim>\<open>$resource(baseRoute + endpointConfig.route,
  {}, endpointConfig.actions)\<close>, kept as the two parts of the URL and the action map it
  was built with) and the members the loop attached, in the order of the action map.
  (Names that are array indices, which JavaScript enumerates before the others, are
  not treated specially.) The fields \<open>ep_config\<close> and the resource are what the
  constructor stored in \<^verbatim>\<open>this.config\<close> and \<^verbatim>\<open>this.resource\<close>; a member attached under one of
  these names hides them, see \<open>has_own\<close> below.
\<close>

record endpoint =
  ep_config :: config
  resource_url :: "string \<times> slot"
  resource_actions :: "(string \<times> fields) list"
  members :: "(string \<times> callable) list"

definition ApiEndpoint :: "string \<Rightarrow> config \<Rightarrow> endpoint" where
  "ApiEndpoint base endpointConfig =
     \<lparr>ep_config = endpointConfig,
      resource_url = (base, route_slot endpointConfig),
      resource_actions = actions endpointConfig,
      members = foldl attach [] (actions endpointConfig)\<rparr>"

text \<open>\<^verbatim>\<open>$get\<close>: one endpoint per registered name, from the base route and the config the
  name refers to at that moment.\<close>

definition provider_get :: "provider \<Rightarrow> (string \<times> endpoint) list" where
  "provider_get s =
     concat (map (\<lambda>(name, a). case configs s a of
                                  Some c \<Rightarrow> [(name, ApiEndpoint (baseRoute s) c)]
                                | None \<Rightarrow> [])
               (endpoints s))"


section \<open>The prototype's methods\<close>

text \<open>
  The objects that callers, the library and the transport share by reference (request
  payloads, response objects) live in a store: \<open>heap\<close> maps a reference to the object's
  current value, \<open>fresh\<close> is the next unused reference. Two ghost fields record what an
  observer of the outside sees: \<open>sent\<close>, the calls made to the resource (action,
  params, data) in order, and \<open>hooklog\<close>, the user methods invoked (name, function,
  receiver at the moment of the call) in order.

  The definitions of this section are the four methods of \<^verbatim>\<open>ApiEndpoint.prototype\<close> with
  \<^verbatim>\<open>this.config\<close>, \<^verbatim>\<open>this.$injector\<close>, \<^verbatim>\<open>this.resource\<close>, \<^verbatim>\<open>this.request\<close> and \<^verbatim>\<open>this.instantiateModel\<close>
  being what the constructor and the prototype provide. The next section resolves these
  names on the endpoint, where an action of the same name may have replaced them.
\<close>

record world =
  heap :: "addr \<Rightarrow> jsval"
  fresh :: addr
  sent :: "(string \<times> jsarg \<times> jsarg) list"
  hooklog :: "(string \<times> nat \<times> fields) list"

text \<open>\<^verbatim>\<open>angular.copy(source)\<close> (AngularJS): a deep copy, a new object with the members of
  its source that shares nothing with it; \<^verbatim>\<open>undefined\<close> and a string are copied to
  themselves. A value of the store is a whole tree, so the copy of an object is a new
  reference holding the same tree.\<close>

definition angular_copy :: "jsarg \<Rightarrow> world \<Rightarrow> jsarg \<times> world" where
  "angular_copy source w =
     (case source of
        Undef \<Rightarrow> (Undef, w)
      | Text s \<Rightarrow> (Text s, w)
      | Ref a \<Rightarrow> (Ref (fresh w), w\<lparr>heap := (heap w)(fresh w := heap w a), fresh := Suc (fresh w)\<rparr>))"

text \<open>A method call \<^verbatim>\<open>obj.name()\<close>: the property must hold a function, which then runs on
  the object; the result is the object as the call leaves it.\<close>

definition call_method :: "host \<Rightarrow> jsval \<Rightarrow> string \<Rightarrow> world \<Rightarrow> (jserror + jsval) \<times> world" where
  "call_method h obj name w =
     (case obj of
        VObj fs \<Rightarrow>
          (case get_prop obj name of
             VFun f \<Rightarrow>
               (case run h f fs of
                  Inl e \<Rightarrow> (Inl e, w\<lparr>hooklog := hooklog w @ [(name, f, fs)]\<rparr>)
                | Inr fs' \<Rightarrow> (Inr (VObj fs'), w\<lparr>hooklog := hooklog w @ [(name, f, fs)]\<rparr>))
           | _ \<Rightarrow> (Inl TypeError, w))
      | _ \<Rightarrow> (Inl TypeError, w))"

text \<open>
  \<^verbatim>\<open>
  app.ApiEndpoint.prototype.instantiateModel = function(data) {
    var model = this.$injector.instantiate(this.config.model);
    angular.extend(model, data);
    model.afterLoad();
    return model;
  };
  \<close>
\<close>

definition instantiateModel :: "host \<Rightarrow> endpoint \<Rightarrow> jsval \<Rightarrow> world \<Rightarrow> (jserror + jsval) \<times> world" where
  "instantiateModel h ep data w =
     (case instantiate h (model_slot (ep_config ep)) of
        Inl e \<Rightarrow> (Inl e, w)
      | Inr m \<Rightarrow> call_method h (VObj (angular_extend m data)) ''afterLoad'' w)"

text \<open>
  \<^verbatim>\<open>
  app.ApiEndpoint.prototype.request = function(action, params, data) {
    return this.resource[action](params, data).$promise;
  };
  \<close>
  The call is recorded; a response the transport resolves with becomes a new object of
  the store, and the promise resolves with the reference to it.
\<close>

definition request :: "host \<Rightarrow> string \<Rightarrow> jsarg \<Rightarrow> jsarg \<Rightarrow> world \<Rightarrow> jsarg promise \<times> world" where
  "request h action params data w =
     (case transport h action params data (heap w) of
        Rejected e \<Rightarrow> (Rejected e, w\<lparr>sent := sent w @ [(action, params, data)]\<rparr>)
      | Resolved response \<Rightarrow>
          (Resolved (Ref (fresh w)),
           w\<lparr>heap := (heap w)(fresh w := VObj response),
             fresh := Suc (fresh w),
             sent := sent w @ [(action, params, data)]\<rparr>))"

text \<open>\<^verbatim>\<open>data.map(instantiateModel)\<close>: the elements in order, stopping at the first throw.\<close>

fun map_instantiateModel ::
  "host \<Rightarrow> endpoint \<Rightarrow> jsval list \<Rightarrow> world \<Rightarrow> (jserror + jsval list) \<times> world" where
  "map_instantiateModel h ep [] w = (Inr [], w)"
| "map_instantiateModel h ep (d # ds) w =
     (case instantiateModel h ep d w of
        (Inl e, w') \<Rightarrow> (Inl e, w')
      | (Inr m, w') \<Rightarrow>
          (case map_instantiateModel h ep ds w' of
             (Inl e, w'') \<Rightarrow> (Inl e, w'')
           | (Inr ms, w'') \<Rightarrow> (Inr (m # ms), w'')))"

text \<open>
  The callback of \<^verbatim>\<open>getRequestWithModel\<close>:
  \<^verbatim>\<open>
  function(response) {
    var data = response.data;
    response.data = angular.isArray(data) ?
      data.map(instantiateModel) : instantiateModel(data);
  }
  \<close>
  It has no \<^verbatim>\<open>return\<close> statement: its value is \<^verbatim>\<open>undefined\<close>. Reading a property of
  \<^verbatim>\<open>undefined\<close> throws; a string has no property \<^verbatim>\<open>data\<close> and keeps none that is assigned.
\<close>

definition then_callback :: "host \<Rightarrow> endpoint \<Rightarrow> jsarg \<Rightarrow> world \<Rightarrow> (jserror + jsarg) \<times> world" where
  "then_callback h ep response w =
     (case response of
        Undef \<Rightarrow> (Inl TypeError, w)
      | Text s \<Rightarrow>
          (case instantiateModel h ep VUndefined w of
             (Inl e, w') \<Rightarrow> (Inl e, w')
           | (Inr v, w') \<Rightarrow> (Inr Undef, w'))
      | Ref r \<Rightarrow>
          (case (case get_prop (heap w r) ''data'' of
                   VArr xs \<Rightarrow>
                     (case map_instantiateModel h ep xs w of
                        (Inl e, w') \<Rightarrow> (Inl e, w')
                      | (Inr ms, w') \<Rightarrow> (Inr (VArr ms), w'))
                 | d \<Rightarrow> instantiateModel h ep d w) of
             (Inl e, w') \<Rightarrow> (Inl e, w')
           | (Inr v, w') \<Rightarrow> (Inr Undef, w'\<lparr>heap := (heap w')(r := set_prop (heap w' r) ''data'' v)\<rparr>)))"

text \<open>\<^verbatim>\<open>promise.then(f)\<close>: a new promise. When the first resolves, \<open>f\<close> runs on its value;
  the new promise resolves with what \<open>f\<close> returns and rejects with what \<open>f\<close> throws. A
  rejection passes through.\<close>

fun then_promise ::
  "'a promise \<Rightarrow> ('a \<Rightarrow> world \<Rightarrow> (jserror + 'b) \<times> world) \<Rightarrow> world \<Rightarrow> 'b promise \<times> world" where
  "then_promise (Rejected e) f w = (Rejected e, w)"
| "then_promise (Resolved v) f w =
     (case f v w of
        (Inl e, w') \<Rightarrow> (Rejected e, w')
      | (Inr r, w') \<Rightarrow> (Resolved r, w'))"

text \<open>
  \<^verbatim>\<open>
  app.ApiEndpoint.prototype.getRequestWithModel = function(action, params) {
    var promise = this.request(action, params);
    var instantiateModel = this.instantiateModel.bind(this);
    return promise.then(function(response) { ... });
  };
  \<close>
\<close>

definition getRequestWithModel ::
  "host \<Rightarrow> endpoint \<Rightarrow> string \<Rightarrow> jsarg \<Rightarrow> world \<Rightarrow> jsarg promise \<times> world" where
  "getRequestWithModel h ep action params w =
     (case request h action params Undef w of
        (promise, w') \<Rightarrow> then_promise promise (then_callback h ep) w')"

text \<open>
  \<^verbatim>\<open>
  app.ApiEndpoint.prototype.saveRequestWithModel = function(action, params, data) {
    var model = angular.copy(data);
    if (model && model.beforeSave) {
      model.beforeSave();
    }
    return this.request(action, params, model);
  };
  \<close>
  \<open>before_request\<close> is the part before the \<^verbatim>\<open>return\<close>: it yields the value of \<^verbatim>\<open>model\<close>, or the error
  \<^verbatim>\<open>beforeSave\<close> throws, which leaves the function before any request is made. A copy
  that is \<^verbatim>\<open>undefined\<close> or a string has no \<^verbatim>\<open>beforeSave\<close>.
\<close>

definition before_request :: "host \<Rightarrow> jsarg \<Rightarrow> world \<Rightarrow> (jserror + jsarg) \<times> world" where
  "before_request h data w =
     (case angular_copy data w of
        (Undef, w1) \<Rightarrow> (Inr Undef, w1)
      | (Text s, w1) \<Rightarrow> (Inr (Text s), w1)
      | (Ref m, w1) \<Rightarrow>
          (if truthy (get_prop (heap w1 m) ''beforeSave'') then
             (case call_method h (heap w1 m) ''beforeSave'' w1 of
                (Inl e, w2) \<Rightarrow> (Inl e, w2)
              | (Inr obj, w2) \<Rightarrow> (Inr (Ref m), w2\<lparr>heap := (heap w2)(m := obj)\<rparr>))
           else (Inr (Ref m), w1)))"

definition saveRequestWithModel ::
  "host \<Rightarrow> string \<Rightarrow> jsarg \<Rightarrow> jsarg \<Rightarrow> world \<Rightarrow> (jserror + jsarg promise) \<times> world" where
  "saveRequestWithModel h action params data w =
     (case before_request h data w of
        (Inl e, w1) \<Rightarrow> (Inl e, w1)
      | (Inr m, w1) \<Rightarrow> (case request h action params m w1 of (p, w2) \<Rightarrow> (Inr p, w2)))"


section \<open>Calling a member of an endpoint\<close>

text \<open>
  The methods reach each other and the endpoint's objects through \<^verbatim>\<open>this\<close>, and the
  constructor's \<^verbatim>\<open>self[actionName] = ...\<close> can replace any of them: an action named
  \<^verbatim>\<open>request\<close> replaces what \<^verbatim>\<open>this.request\<close> denotes. \<open>call\<close> runs a function on the endpoint
  with a list of arguments, resolving \<^verbatim>\<open>this.request\<close> on the endpoint at the moment of
  the call. A missing argument is \<^verbatim>\<open>undefined\<close>.

  The result is \<open>None\<close> where this model gives no result:
  \<^item> when the calls never return (an action named \<^verbatim>\<open>request\<close> that is itself bound to
    \<^verbatim>\<open>getRequestWithModel\<close> or \<^verbatim>\<open>saveRequestWithModel\<close> calls itself without end; the
    engine stops that with a RangeError at a depth of its own);
  \<^item> when an action named \<^verbatim>\<open>resource\<close> has replaced the resource and a request is made,
    or an action named \<^verbatim>\<open>config\<close>, \<^verbatim>\<open>$injector\<close> or \<^verbatim>\<open>instantiateModel\<close> has replaced what the
    callback of \<^verbatim>\<open>getRequestWithModel\<close> uses: what then happens depends on members of
    function objects and on promises stored as data, which are outside the values
    modelled here;
  \<^item> when the action handed to \<^verbatim>\<open>request\<close> is not a string (no member passes one).
\<close>

definition arg :: "jsarg list \<Rightarrow> nat \<Rightarrow> jsarg" where
  "arg args i = (if i < length args then args ! i else Undef)"

definition has_own :: "endpoint \<Rightarrow> string \<Rightarrow> bool" where
  "has_own ep name = (case map_of (members ep) name of None \<Rightarrow> False | Some c \<Rightarrow> True)"

text \<open>\<^verbatim>\<open>request\<close> run on the endpoint: \<^verbatim>\<open>this.resource\<close> must be the resource.\<close>

definition request_on ::
  "host \<Rightarrow> endpoint \<Rightarrow> jsarg \<Rightarrow> jsarg \<Rightarrow> jsarg \<Rightarrow> world \<Rightarrow> ((jserror + jsarg promise) \<times> world) option" where
  "request_on h ep action params data w =
     (case action of
        Text a \<Rightarrow>
          (if has_own ep ''resource'' then None
           else Some (case request h a params data w of (p, w') \<Rightarrow> (Inr p, w')))
      | _ \<Rightarrow> None)"

text \<open>The rest of \<^verbatim>\<open>getRequestWithModel\<close> once \<^verbatim>\<open>this.request(action, params)\<close> has returned
  or thrown: \<^verbatim>\<open>promise.then(...)\<close> with the callback above.\<close>

definition then_on ::
  "host \<Rightarrow> endpoint \<Rightarrow> (jserror + jsarg promise) \<times> world \<Rightarrow> ((jserror + jsarg promise) \<times> world) option" where
  "then_on h ep = (\<lambda>(r, w).
     (case r of
        Inl e \<Rightarrow> Some (Inl e, w)
      | Inr promise \<Rightarrow>
          (if has_own ep ''instantiateModel'' then None
           else if has_own ep ''config'' then None
           else if has_own ep ''$injector'' then None
           else Some (case then_promise promise (then_callback h ep) w of (p, w') \<Rightarrow> (Inr p, w')))))"

partial_function (option) call ::
  "host \<Rightarrow> endpoint \<Rightarrow> callable \<Rightarrow> jsarg list \<Rightarrow> world \<Rightarrow> ((jserror + jsarg promise) \<times> world) option" where
  "call h ep c args w =
     (case c of
        Bound f name \<Rightarrow> call h ep f (Text name # args) w
      | Method Request \<Rightarrow> request_on h ep (arg args 0) (arg args 1) (arg args 2) w
      | Method GetRequestWithModel \<Rightarrow>
          Option.bind (call h ep (this_method (members ep) Request) [arg args 0, arg args 1] w)
            (then_on h ep)
      | Method SaveRequestWithModel \<Rightarrow>
          (case before_request h (arg args 2) w of
             (Inl e, w1) \<Rightarrow> Some (Inl e, w1)
           | (Inr m, w1) \<Rightarrow>
               call h ep (this_method (members ep) Request) [arg args 0, arg args 1, m] w1))"

text \<open>\<^verbatim>\<open>api.name.actionName(params, data)\<close> for a name the constructor attached (other names
  are not covered).\<close>

definition call_member ::
  "host \<Rightarrow> endpoint \<Rightarrow> string \<Rightarrow> jsarg \<Rightarrow> jsarg \<Rightarrow> world \<Rightarrow> ((jserror + jsarg promise) \<times> world) option" where
  "call_member h ep actionName params data w =
     (case map_of (members ep) actionName of
        None \<Rightarrow> None
      | Some c \<Rightarrow> call h ep c [params, data] w)"

text \<open>The names the endpoint object carries before the loop: three own properties and
  the four methods of its prototype. \<open>plain_names\<close>: no action of the config has one of
  these names.\<close>

definition reserved_names :: "string list" where
  "reserved_names =
     [''config'', ''$injector'', ''resource'', ''instantiateModel'',
      ''request'', ''getRequestWithModel'', ''saveRequestWithModel'']"

definition plain_names :: "config \<Rightarrow> bool" where
  "plain_names c = list_all (\<lambda>n. map_of (actions c) n = None) reserved_names"


section \<open>Concrete hosts and configurations, for evaluating the definitions\<close>

text \<open>
  A small host on which the theorems below are instantiated. The model constructor
  \<open>VFun 10\<close> builds objects with both hooks: \<^verbatim>\<open>afterLoad\<close> (function 11) sets \<^verbatim>\<open>loaded\<close>,
  \<^verbatim>\<open>beforeSave\<close> (function 12) sets \<^verbatim>\<open>saved\<close> on its receiver. The constructor \<open>VFun 13\<close>
  builds objects with no hook. The transport answers the action \<^verbatim>\<open>query\<close> with the
  array \<^verbatim>\<open>[{id:1},{id:2}]\<close>, every other action with \<^verbatim>\<open>{id:5}\<close>.
\<close>

definition demo_host :: host where
  "demo_host =
     \<lparr>invoke = (\<lambda>f arg c. (Inr (Value VUndefined), c)),
      instantiate = (\<lambda>m. if m = Own (VFun 10) then Inr [(''afterLoad'', VFun 11), (''beforeSave'', VFun 12)]
                          else if m = Own (VFun 13) then Inr []
                          else Inl TypeError),
      run = (\<lambda>f obj. if f = 11 then Inr (AList.update ''loaded'' (VBool True) obj)
                      else if f = 12 then Inr (AList.update ''saved'' (VBool True) obj)
                      else Inl (Thrown VUndefined)),
      transport = (\<lambda>action params data hp.
                     if action = ''query''
                     then Resolved [(''data'', VArr [VObj [(''id'', VNum 1)], VObj [(''id'', VNum 2)]])]
                     else Resolved [(''data'', VObj [(''id'', VNum 5)])])\<rparr>"



text \<open>The same host with a transport that answers with the array
  \<^verbatim>\<open>[{id:1},{id:2,afterLoad:1},{id:3}]\<close>, whose second element has a field named like the
  hook.\<close>

definition field_host :: host where
  "field_host =
     demo_host\<lparr>transport := (\<lambda>action params data hp.
        Resolved [(''data'', VArr [VObj [(''id'', VNum 1)],
                                  VObj [(''id'', VNum 2), (''afterLoad'', VNum 1)],
                                  VObj [(''id'', VNum 3)]])])\<rparr>"

text \<open>The configuration of the README: \<^verbatim>\<open>endpoint('songs').route('songs/:id').model(app.Song)\<close>,
  with \<open>VFun 10\<close> for \<^verbatim>\<open>app.Song\<close>; and the same with the hook-less constructor.\<close>

definition songs_config :: config where
  "songs_config = snd (model demo_host (VFun 10) (snd (route demo_host (VStr ''songs/:id'') ApiEndpointConfig)))"

definition bare_config :: config where
  "bare_config = snd (model demo_host (VFun 13) (snd (route demo_host (VStr ''songs/:id'') ApiEndpointConfig)))"

text \<open>The same configuration with one more action, \<^verbatim>\<open>addHttpAction('get', 'query', undefined,
  {model: true, isArray: true})\<close>: an action object that itself has a \<^verbatim>\<open>model\<close> property.\<close>

definition query_config :: config where
  "query_config =
     addHttpAction ''get'' ''query'' VUndefined
       (VObj [(''model'', VBool True), (''isArray'', VBool True)]) songs_config"

text \<open>And with two more actions that have a \<^verbatim>\<open>model\<close> property, a GET and a POST:
  \<^verbatim>\<open>addHttpAction('get', 'one', undefined, {model: true})
  .addHttpAction('post', 'store', undefined, {model: true})\<close>.\<close>

definition store_config :: config where
  "store_config =
     addHttpAction ''post'' ''store'' VUndefined (VObj [(''model'', VBool True)])
       (addHttpAction ''get'' ''one'' VUndefined (VObj [(''model'', VBool True)]) query_config)"


text \<open>A store with one object, the caller's payload \<^verbatim>\<open>{name:'x'}\<close> of a model with a
  \<^verbatim>\<open>beforeSave\<close> hook, at reference 0.\<close>

definition demo_world :: world where
  "demo_world =
     \<lparr>heap = (\<lambda>a. if a = 0 then VObj [(''name'', VStr ''x''), (''beforeSave'', VFun 12)] else VUndefined),
      fresh = 1, sent = [], hooklog = []\<rparr>"


section \<open>The config builder\<close>

lemma toUpperCase_defaults:
  "toUpperCase ''GET'' = ''GET''" "toUpperCase ''PUT'' = ''PUT''" "toUpperCase ''POST'' = ''POST''"
  "toUpperCase ''PATCH'' = ''PATCH''" "toUpperCase ''DELETE'' = ''DELETE''"
  by (simp_all add: toUpperCase_def upper_char_def)

lemma angular_extend_undefined: "angular_extend dst VUndefined = dst"
  by (simp add: angular_extend_def)

lemma actions_ApiEndpointConfig:
  "actions ApiEndpointConfig =
   [(''get'', [(''method'', VStr ''GET''), (''params'', VUndefined)]),
    (''update'', [(''method'', VStr ''PUT''), (''params'', VUndefined)]),
    (''save'', [(''method'', VStr ''POST''), (''params'', VUndefined)]),
    (''patch'', [(''method'', VStr ''PATCH''), (''params'', VUndefined)]),
    (''remove'', [(''method'', VStr ''DELETE''), (''params'', VUndefined)])]"
  by (simp add: ApiEndpointConfig_def defaultActions_def addHttpAction_def
      angular_extend_undefined toUpperCase_defaults)

lemma slots_ApiEndpointConfig:
  "route_slot ApiEndpointConfig = Proto" "model_slot ApiEndpointConfig = Proto"
  by (simp_all add: ApiEndpointConfig_def defaultActions_def addHttpAction_def)

text \<open>
  Claim C9. A freshly constructed config, before any builder call, has exactly the five
  default actions \<^verbatim>\<open>get\<close>, \<^verbatim>\<open>update\<close>, \<^verbatim>\<open>save\<close>, \<^verbatim>\<open>patch\<close>, \<^verbatim>\<open>remove\<close>, with the methods GET,
  PUT, POST, PATCH, DELETE in that order (and no route or model yet).
\<close>

theorem default_actions_after_construction:
  "actions ApiEndpointConfig =
   [(''get'', [(''method'', VStr ''GET''), (''params'', VUndefined)]),
    (''update'', [(''method'', VStr ''PUT''), (''params'', VUndefined)]),
    (''save'', [(''method'', VStr ''POST''), (''params'', VUndefined)]),
    (''patch'', [(''method'', VStr ''PATCH''), (''params'', VUndefined)]),
    (''remove'', [(''method'', VStr ''DELETE''), (''params'', VUndefined)])]
   \<and> route_slot ApiEndpointConfig = Proto \<and> model_slot ApiEndpointConfig = Proto"
  by (simp add: actions_ApiEndpointConfig slots_ApiEndpointConfig)

text \<open>Assigning the own properties of a source one by one: a name the source does not
  have keeps the destination's value; a name it has (once) ends with the source's value.\<close>

lemma fold_update_other:
  "k \<notin> fst ` set kvs \<Longrightarrow> map_of (fold (\<lambda>(k, v). AList.update k v) kvs dst) k = map_of dst k"
  by (induction kvs arbitrary: dst) (auto simp: update_conv')

lemma fold_update_member:
  "distinct (map fst kvs) \<Longrightarrow> (k, v) \<in> set kvs \<Longrightarrow>
     map_of (fold (\<lambda>(k, v). AList.update k v) kvs dst) k = Some v"
proof (induction kvs arbitrary: dst)
  case Nil
  then show ?case by simp
next
  case (Cons p kvs)
  show ?case
  proof (cases "(k, v) = p")
    case True
    then have p: "p = (k, v)" by simp
    from Cons.prems(1) p have "k \<notin> fst ` set kvs" by force
    then show ?thesis by (simp add: p fold_update_other update_conv')
  next
    case False
    with Cons show ?thesis by auto
  qed
qed

lemma angular_extend_other:
  "k \<notin> fst ` set (own_props src) \<Longrightarrow> map_of (angular_extend dst src) k = map_of dst k"
  by (simp add: angular_extend_def fold_update_other)

lemma angular_extend_member:
  "distinct (map fst (own_props src)) \<Longrightarrow> (k, v) \<in> set (own_props src) \<Longrightarrow>
     map_of (angular_extend dst src) k = Some v"
  by (simp add: angular_extend_def fold_update_member)

lemma addHttpAction_twice:
  "addHttpAction m2 n p2 o2 (addHttpAction m1 n p1 o1 c) = addHttpAction m2 n p2 o2 c"
  by (simp add: addHttpAction_def)

text \<open>
  Claim C8, as stated, fails: the method field of the stored action is not always the
  upper-cased method argument. \<^verbatim>\<open>angular.extend\<close> assigns the options after the method,
  so \<^verbatim>\<open>addHttpAction('post', 'list', undefined, {method: 'get'})\<close> stores the method
  \<^verbatim>\<open>'get'\<close>, which is not \<^verbatim>\<open>'POST'\<close>.
\<close>

theorem options_method_replaces_counterexample:
  "map_of (actions (addHttpAction ''post'' ''list'' VUndefined (VObj [(''method'', VStr ''get'')])
                      ApiEndpointConfig)) ''list''
     = Some [(''method'', VStr ''get''), (''params'', VUndefined)]
   \<and> toUpperCase ''post'' = ''POST''
   \<and> VStr ''get'' \<noteq> VStr (toUpperCase ''post'')"
  by (simp add: addHttpAction_def update_conv' angular_extend_def toUpperCase_def upper_char_def)

text \<open>
  Claim C8, amended. \<^verbatim>\<open>addHttpAction(method, name, params, options)\<close> stores under \<^verbatim>\<open>name\<close>
  the object \<^verbatim>\<open>{method: method.toUpperCase(), params: params}\<close> extended with the options,
  whatever was stored there before (also a default action): a second call with the same
  name leaves the config as if the first had not been made, and every other name keeps
  its action. The stored method is the upper-cased method argument when the options
  have no \<^verbatim>\<open>method\<close> property of their own; when they have one, it is the options'.
\<close>

theorem addHttpAction_overwrites:
  "map_of (actions (addHttpAction m n p opts c)) n =
      Some (angular_extend [(''method'', VStr (toUpperCase m)), (''params'', p)] opts)
   \<and> addHttpAction m2 n p2 o2 (addHttpAction m n p opts c) = addHttpAction m2 n p2 o2 c
   \<and> (\<forall>n'. n' \<noteq> n \<longrightarrow> map_of (actions (addHttpAction m n p opts c)) n' = map_of (actions c) n')
   \<and> (''method'' \<notin> fst ` set (own_props opts) \<longrightarrow>
        get_prop (VObj (angular_extend [(''method'', VStr (toUpperCase m)), (''params'', p)] opts)) ''method''
          = VStr (toUpperCase m))
   \<and> (\<forall>v. distinct (map fst (own_props opts)) \<and> (''method'', v) \<in> set (own_props opts) \<longrightarrow>
        get_prop (VObj (angular_extend [(''method'', VStr (toUpperCase m)), (''params'', p)] opts)) ''method''
          = v)"
proof -
  have stored: "map_of (actions (addHttpAction m n p opts c)) n =
      Some (angular_extend [(''method'', VStr (toUpperCase m)), (''params'', p)] opts)"
    by (simp add: addHttpAction_def update_conv')
  have others: "\<forall>n'. n' \<noteq> n \<longrightarrow> map_of (actions (addHttpAction m n p opts c)) n' = map_of (actions c) n'"
    by (simp add: addHttpAction_def update_conv')
  have upper: "''method'' \<notin> fst ` set (own_props opts) \<longrightarrow>
        get_prop (VObj (angular_extend [(''method'', VStr (toUpperCase m)), (''params'', p)] opts)) ''method''
          = VStr (toUpperCase m)"
    by (simp add: angular_extend_other)
  have opt: "\<forall>v. distinct (map fst (own_props opts)) \<and> (''method'', v) \<in> set (own_props opts) \<longrightarrow>
        get_prop (VObj (angular_extend [(''method'', VStr (toUpperCase m)), (''params'', p)] opts)) ''method''
          = v"
    by (auto simp: angular_extend_member)
  from stored others upper opt show ?thesis
    by (simp only: addHttpAction_twice simp_thms)
qed

theorem addHttpAction_overwrites_witness:
  "''update'' \<noteq> ''get''
   \<and> map_of (actions (addHttpAction ''delete'' ''get'' VUndefined (VObj [(''isArray'', VBool True)])
                        ApiEndpointConfig)) ''get''
       = Some [(''method'', VStr ''DELETE''), (''params'', VUndefined), (''isArray'', VBool True)]
   \<and> map_of (actions (addHttpAction ''delete'' ''get'' VUndefined (VObj [(''isArray'', VBool True)])
                        ApiEndpointConfig)) ''update''
       = Some [(''method'', VStr ''PUT''), (''params'', VUndefined)]
   \<and> ''method'' \<notin> fst ` set (own_props (VObj [(''isArray'', VBool True)]))
   \<and> get_prop (VObj (angular_extend [(''method'', VStr (toUpperCase ''delete'')), (''params'', VUndefined)]
                        (VObj [(''isArray'', VBool True)]))) ''method'' = VStr ''DELETE''
   \<and> distinct (map fst (own_props (VObj [(''method'', VStr ''get'')])))
   \<and> (''method'', VStr ''get'') \<in> set (own_props (VObj [(''method'', VStr ''get'')]))
   \<and> get_prop (VObj (angular_extend [(''method'', VStr (toUpperCase ''post'')), (''params'', VUndefined)]
                        (VObj [(''method'', VStr ''get'')]))) ''method'' = VStr ''get''"
  using addHttpAction_overwrites [of "''delete''" "''get''" VUndefined "VObj [(''isArray'', VBool True)]"
      ApiEndpointConfig "''delete''" VUndefined VUndefined]
    addHttpAction_overwrites [of "''post''" "''list''" VUndefined "VObj [(''method'', VStr ''get'')]"
      ApiEndpointConfig "''post''" VUndefined VUndefined]
  by (simp add: addHttpAction_def update_conv' angular_extend_def toUpperCase_def upper_char_def
      actions_ApiEndpointConfig)

text \<open>
  Claim C3. The claim does not hold of the code, and the code does not do what its own
  documentation says. Both methods are documented as setters that return the config
  (\<^verbatim>\<open>Set the route for this endpoint\<close>, \<^verbatim>\<open>@return {app.ApiEndpointConfig}\<close>), with no
  restriction to a first call. But \<^verbatim>\<open>this.route = route\<close> stores the template in the own
  property \<^verbatim>\<open>route\<close>, which hides the method of the prototype. On a new config the first
  call stores its argument and returns the config. After a string has been stored,
  every further call \<^verbatim>\<open>route(r)\<close> calls that string: it throws TypeError and the config
  keeps the first template. After a constructor has been stored by \<^verbatim>\<open>model\<close>, a further call
  \<^verbatim>\<open>model(m)\<close> runs that constructor on \<open>m\<close> instead of storing \<open>m\<close>. On the concrete host:
  \<^verbatim>\<open>route('a')\<close> then \<^verbatim>\<open>route('b')\<close> throws and leaves \<^verbatim>\<open>'a'\<close>; the second \<^verbatim>\<open>model\<close> call returns
  what the first factory returns, not the config, and the first factory stays.
\<close>

theorem second_route_call_throws:
  "route h (VStr a) ApiEndpointConfig = (Inr This, ApiEndpointConfig\<lparr>route_slot := Own (VStr a)\<rparr>)
   \<and> route h r (c\<lparr>route_slot := Own (VStr a)\<rparr>) = (Inl TypeError, c\<lparr>route_slot := Own (VStr a)\<rparr>)
   \<and> model h (VFun f) ApiEndpointConfig = (Inr This, ApiEndpointConfig\<lparr>model_slot := Own (VFun f)\<rparr>)
   \<and> model h m (c\<lparr>model_slot := Own (VFun f)\<rparr>) = invoke h f m (c\<lparr>model_slot := Own (VFun f)\<rparr>)
   \<and> fst (route demo_host (VStr ''b'') (snd (route demo_host (VStr ''a'') ApiEndpointConfig))) = Inl TypeError
   \<and> route_slot (snd (route demo_host (VStr ''b'') (snd (route demo_host (VStr ''a'') ApiEndpointConfig))))
       = Own (VStr ''a'')
   \<and> fst (model demo_host (VFun 13) (snd (model demo_host (VFun 10) ApiEndpointConfig))) = Inr (Value VUndefined)
   \<and> model_slot (snd (model demo_host (VFun 13) (snd (model demo_host (VFun 10) ApiEndpointConfig))))
       = Own (VFun 10)"
  by (simp add: route_def model_def call_value_def slots_ApiEndpointConfig demo_host_def)



section \<open>The provider\<close>

text \<open>
  Claim C2, as stated, fails: \<^verbatim>\<open>endpoint\<close> never looks the name up, it always creates a
  config. On a new provider the two calls \<^verbatim>\<open>endpoint('x')\<close> return the references 0 and 1;
  a route set through the first is held by the first config and is not seen through
  the second.
\<close>

theorem endpoint_twice_counterexample:
  "fst (endpoint ''x'' ApiProvider) = 0
   \<and> fst (endpoint ''x'' (snd (endpoint ''x'' ApiProvider))) = 1
   \<and> fst (through 0 (route demo_host (VStr ''songs/:id''))
            (snd (endpoint ''x'' (snd (endpoint ''x'' ApiProvider)))))
       = Inr (Handle 0)
   \<and> map_option route_slot
        (configs (snd (through 0 (route demo_host (VStr ''songs/:id''))
                        (snd (endpoint ''x'' (snd (endpoint ''x'' ApiProvider)))))) 0)
       = Some (Own (VStr ''songs/:id''))
   \<and> map_option route_slot
        (configs (snd (through 0 (route demo_host (VStr ''songs/:id''))
                        (snd (endpoint ''x'' (snd (endpoint ''x'' ApiProvider)))))) 1)
       = Some Proto"
  by (simp add: endpoint_def through_def ApiProvider_def route_def slots_ApiEndpointConfig)

text \<open>
  Claim C2, amended. Every call \<^verbatim>\<open>endpoint(x)\<close> creates a new config, stores it under \<^verbatim>\<open>x\<close>
  in place of any earlier one and returns the reference to it. After two calls with the
  same name the two references differ, the provider maps \<^verbatim>\<open>x\<close> to the second, both
  configs are as constructed, and whatever method is run through one reference leaves
  the config behind the other unchanged.
\<close>

theorem endpoint_creates_a_new_config:
  "fst (endpoint x (snd (endpoint x s))) \<noteq> fst (endpoint x s)
   \<and> map_of (endpoints (snd (endpoint x (snd (endpoint x s))))) x
       = Some (fst (endpoint x (snd (endpoint x s))))
   \<and> configs (snd (endpoint x (snd (endpoint x s)))) (fst (endpoint x s)) = Some ApiEndpointConfig
   \<and> configs (snd (endpoint x (snd (endpoint x s)))) (fst (endpoint x (snd (endpoint x s))))
       = Some ApiEndpointConfig
   \<and> (\<forall>m. configs (snd (through (fst (endpoint x s)) m (snd (endpoint x (snd (endpoint x s))))))
              (fst (endpoint x (snd (endpoint x s))))
            = Some ApiEndpointConfig)
   \<and> (\<forall>m. configs (snd (through (fst (endpoint x (snd (endpoint x s)))) m
                            (snd (endpoint x (snd (endpoint x s))))))
              (fst (endpoint x s))
            = Some ApiEndpointConfig)"
  by (auto simp add: endpoint_def through_def update_conv' split: prod.splits sum.splits retval.splits)


section \<open>The endpoint's choice of method\<close>

lemma members_model_slot:
  "members (ApiEndpoint base (c\<lparr>model_slot := m\<rparr>)) = members (ApiEndpoint base c)"
  by (simp add: ApiEndpoint_def)

lemma songs_config_eq:
  "songs_config = ApiEndpointConfig\<lparr>route_slot := Own (VStr ''songs/:id''), model_slot := Own (VFun 10)\<rparr>"
  by (simp add: songs_config_def route_def model_def slots_ApiEndpointConfig)

lemma bare_config_eq:
  "bare_config = ApiEndpointConfig\<lparr>route_slot := Own (VStr ''songs/:id''), model_slot := Own (VFun 13)\<rparr>"
  by (simp add: bare_config_def route_def model_def slots_ApiEndpointConfig)

lemma ep_config_ApiEndpoint: "ep_config (ApiEndpoint base c) = c"
  by (simp add: ApiEndpoint_def)


text \<open>
  Claim C1. The claim does not hold of the code: the constructor tests \<^verbatim>\<open>action.model\<close>,
  a property of the action object, and never reads the config's model. The members of
  an endpoint are the same whatever model the config holds, and the config of the
  README, with its model factory set, binds all five default actions, \<^verbatim>\<open>get\<close> (GET) and
  \<^verbatim>\<open>update\<close>/\<^verbatim>\<open>save\<close> (PUT/POST) among them, to the plain request.
\<close>

theorem config_model_does_not_select_strategy:
  "members (ApiEndpoint base (c\<lparr>model_slot := m\<rparr>)) = members (ApiEndpoint base c)
   \<and> model_slot songs_config = Own (VFun 10)
   \<and> members (ApiEndpoint base songs_config) =
       [(''get'', Bound (Method Request) ''get''), (''update'', Bound (Method Request) ''update''),
        (''save'', Bound (Method Request) ''save''), (''patch'', Bound (Method Request) ''patch''),
        (''remove'', Bound (Method Request) ''remove'')]"
  by (simp add: members_model_slot songs_config_eq)
     (simp add: ApiEndpoint_def actions_ApiEndpointConfig actionMethod_def attach_def this_method_def)



section \<open>Endpoints whose action names are plain\<close>

text \<open>The unfolding rules of \<open>call\<close>, one per kind of function.\<close>

lemma call_Bound: "call h ep (Bound f name) args w = call h ep f (Text name # args) w"
  by (subst call.simps) simp

lemma call_Request:
  "call h ep (Method Request) args w = request_on h ep (arg args 0) (arg args 1) (arg args 2) w"
  by (subst call.simps) simp

lemma call_GetRequestWithModel:
  "call h ep (Method GetRequestWithModel) args w =
     Option.bind (call h ep (this_method (members ep) Request) [arg args 0, arg args 1] w) (then_on h ep)"
  by (subst call.simps) simp

lemma call_SaveRequestWithModel:
  "call h ep (Method SaveRequestWithModel) args w =
     (case before_request h (arg args 2) w of
        (Inl e, w1) \<Rightarrow> Some (Inl e, w1)
      | (Inr m, w1) \<Rightarrow> call h ep (this_method (members ep) Request) [arg args 0, arg args 1, m] w1)"
  by (subst call.simps) simp

lemma arg_simps:
  "arg (a # as) 0 = a" "arg [] n = Undef" "arg (a # as) (Suc n) = arg as n"
  by (simp_all add: arg_def)

lemma arg_numeral:
  "arg (a # b # as) 1 = b" "arg (a # b # c # as) 2 = c" "arg [a] 1 = Undef" "arg [a] 2 = Undef"
  "arg [a, b] 2 = Undef"
  by (simp_all add: arg_def)


text \<open>
  When no action has one of the names the endpoint object already carries, and the
  action map has one entry per name (as every JavaScript object has, and as every map
  built by the config's methods has, see \<open>distinct_actions\<close>), each assignment
  \<^verbatim>\<open>self[actionName] = ...\<close> adds a new property: every member is the prototype's method
  the callback chose, bound to the action's name, and the names \<^verbatim>\<open>this.request\<close>,
  \<^verbatim>\<open>this.resource\<close>, \<^verbatim>\<open>this.config\<close>, \<^verbatim>\<open>this.$injector\<close> and \<^verbatim>\<open>this.instantiateModel\<close> denote what the
  constructor and the prototype provide.
\<close>

lemma update_fresh: "k \<notin> fst ` set al \<Longrightarrow> AList.update k v al = al @ [(k, v)]"
  by (induction al) auto

lemma plain_names_iff:
  "plain_names c \<longleftrightarrow> set reserved_names \<inter> fst ` set (actions c) = {}"
  by (auto simp: plain_names_def list_all_iff map_of_eq_None_iff)

lemma method_name_reserved: "method_name s \<in> set reserved_names"
  by (cases s) (simp_all add: reserved_names_def)

lemma foldl_attach_plain:
  assumes "set reserved_names \<inter> fst ` set xs = {}"
    and "set reserved_names \<inter> fst ` set ms = {}"
    and "distinct (map fst ms @ map fst xs)"
  shows "foldl attach ms xs = ms @ map (\<lambda>(n, a). (n, Bound (Method (actionMethod a)) n)) xs"
  using assms
proof (induction xs arbitrary: ms)
  case Nil
  then show ?case by simp
next
  case (Cons x xs)
  obtain n a where x: "x = (n, a)" by (cases x)
  have none: "map_of ms (method_name (actionMethod a)) = None"
    using Cons.prems(2) method_name_reserved [of "actionMethod a"]
    by (auto simp: map_of_eq_None_iff)
  have fresh: "n \<notin> fst ` set ms" using Cons.prems(3) x by auto
  have step: "attach ms x = ms @ [(n, Bound (Method (actionMethod a)) n)]"
    by (simp add: attach_def x this_method_def none update_fresh [OF fresh])
  have keys: "fst ` set (attach ms x) = fst ` set ms \<union> {n}"
    by (simp add: step)
  have "foldl attach (attach ms x) xs =
          attach ms x @ map (\<lambda>(n, a). (n, Bound (Method (actionMethod a)) n)) xs"
  proof (rule Cons.IH)
    show "set reserved_names \<inter> fst ` set xs = {}" using Cons.prems(1) by auto
    show "set reserved_names \<inter> fst ` set (attach ms x) = {}"
      using Cons.prems(1,2) x unfolding keys by auto
    show "distinct (map fst (attach ms x) @ map fst xs)"
      using Cons.prems(3) x unfolding step by auto
  qed
  with step show ?case by (simp add: x)
qed

lemma members_plain:
  assumes "plain_names c" and "distinct (map fst (actions c))"
  shows "members (ApiEndpoint base c) = map (\<lambda>(n, a). (n, Bound (Method (actionMethod a)) n)) (actions c)"
  using foldl_attach_plain [of "actions c" "[]"] assms
  by (simp add: ApiEndpoint_def plain_names_iff)

lemma member_plain:
  assumes "plain_names c" and "distinct (map fst (actions c))" and "map_of (actions c) name = Some action"
  shows "map_of (members (ApiEndpoint base c)) name = Some (Bound (Method (actionMethod action)) name)"
proof -
  have "map_of (map (\<lambda>(n, a). (n, Bound (Method (actionMethod a)) n)) xs) name
          = map_option (\<lambda>a. Bound (Method (actionMethod a)) name) (map_of xs name)" for xs
    by (induction xs) auto
  with assms show ?thesis by (simp add: members_plain)
qed

lemma has_own_plain:
  assumes "plain_names c" and "distinct (map fst (actions c))" and "n \<in> set reserved_names"
  shows "\<not> has_own (ApiEndpoint base c) n"
proof -
  from assms(1,3) have "n \<notin> fst ` set (actions c)" by (auto simp: plain_names_iff)
  then have "n \<notin> fst ` set (map (\<lambda>(n, a). (n, Bound (Method (actionMethod a)) n)) (actions c))"
    by (auto simp: image_iff)
  then have "map_of (members (ApiEndpoint base c)) n = None"
    by (simp add: members_plain [OF assms(1,2)] map_of_eq_None_iff)
  then show ?thesis by (simp add: has_own_def)
qed

lemma this_method_plain:
  assumes "plain_names c" and "distinct (map fst (actions c))"
  shows "this_method (members (ApiEndpoint base c)) s = Method s"
proof -
  from has_own_plain [OF assms method_name_reserved, of base s]
  have "map_of (members (ApiEndpoint base c)) (method_name s) = None"
    by (simp add: has_own_def split: option.splits)
  then show ?thesis by (simp add: this_method_def)
qed


text \<open>On such an endpoint, calling a member is running the prototype's method of the
  previous section with the action's name, the params and the data.\<close>

lemma call_member_plain:
  assumes "plain_names c" and "distinct (map fst (actions c))"
    and "map_of (actions c) name = Some action"
  shows "actionMethod action = Request \<Longrightarrow>
           call_member h (ApiEndpoint base c) name params data w =
             Some (case request h name params data w of (p, w') \<Rightarrow> (Inr p, w'))"
    and "actionMethod action = GetRequestWithModel \<Longrightarrow>
           call_member h (ApiEndpoint base c) name params data w =
             Some (case getRequestWithModel h (ApiEndpoint base c) name params w of (p, w') \<Rightarrow> (Inr p, w'))"
    and "actionMethod action = SaveRequestWithModel \<Longrightarrow>
           call_member h (ApiEndpoint base c) name params data w =
             Some (saveRequestWithModel h name params data w)"
proof -
  let ?ep = "ApiEndpoint base c"
  note own = has_own_plain [OF assms(1,2), of _ base]
  have res: "\<not> has_own ?ep ''resource''" "\<not> has_own ?ep ''instantiateModel''"
    "\<not> has_own ?ep ''config''" "\<not> has_own ?ep ''$injector''"
    by (rule own, simp add: reserved_names_def)+
  have req: "call h ?ep (Method Request) [Text name, p, d] w' =
               Some (case request h name p d w' of (pr, w'') \<Rightarrow> (Inr pr, w''))" for p d w'
    by (simp add: call_Request arg_simps arg_numeral request_on_def res)
  have req2: "call h ?ep (Method Request) [Text name, p] w' =
               Some (case request h name p Undef w' of (pr, w'') \<Rightarrow> (Inr pr, w''))" for p w'
    by (simp add: call_Request arg_simps arg_numeral request_on_def res)
  note mem = member_plain [OF assms, of base]
  note this_m = this_method_plain [OF assms(1,2), of base]
  show "actionMethod action = Request \<Longrightarrow>
           call_member h ?ep name params data w =
             Some (case request h name params data w of (p, w') \<Rightarrow> (Inr p, w'))"
    by (simp add: call_member_def mem call_Bound req)
  show "actionMethod action = GetRequestWithModel \<Longrightarrow>
           call_member h ?ep name params data w =
             Some (case getRequestWithModel h ?ep name params w of (p, w') \<Rightarrow> (Inr p, w'))"
    by (simp add: call_member_def mem call_Bound call_GetRequestWithModel this_m arg_simps arg_numeral
        req2 then_on_def res getRequestWithModel_def case_prod_unfold)
  show "actionMethod action = SaveRequestWithModel \<Longrightarrow>
           call_member h ?ep name params data w = Some (saveRequestWithModel h name params data w)"
    by (simp add: call_member_def mem call_Bound call_SaveRequestWithModel this_m arg_simps arg_numeral
        req saveRequestWithModel_def split: prod.splits sum.splits)
qed


lemma distinct_actions:
  "distinct (map fst (actions ApiEndpointConfig))"
  "distinct (map fst (actions c)) \<Longrightarrow> distinct (map fst (actions (addHttpAction m n p opts c)))"
  "distinct (map fst (actions c)) \<Longrightarrow> distinct (map fst (actions (enableQuery q c)))"
  by (simp_all add: actions_ApiEndpointConfig addHttpAction_def enableQuery_def Let_def distinct_update)


text \<open>The concrete configurations, evaluated.\<close>

lemma query_config_actions:
  "actions query_config =
     [(''get'', [(''method'', VStr ''GET''), (''params'', VUndefined)]),
      (''update'', [(''method'', VStr ''PUT''), (''params'', VUndefined)]),
      (''save'', [(''method'', VStr ''POST''), (''params'', VUndefined)]),
      (''patch'', [(''method'', VStr ''PATCH''), (''params'', VUndefined)]),
      (''remove'', [(''method'', VStr ''DELETE''), (''params'', VUndefined)]),
      (''query'', [(''method'', VStr ''GET''), (''params'', VUndefined),
                   (''model'', VBool True), (''isArray'', VBool True)])]"
  by (simp add: query_config_def addHttpAction_def songs_config_eq
      actions_ApiEndpointConfig angular_extend_def toUpperCase_def upper_char_def)

lemma store_config_actions:
  "actions store_config =
     [(''get'', [(''method'', VStr ''GET''), (''params'', VUndefined)]),
      (''update'', [(''method'', VStr ''PUT''), (''params'', VUndefined)]),
      (''save'', [(''method'', VStr ''POST''), (''params'', VUndefined)]),
      (''patch'', [(''method'', VStr ''PATCH''), (''params'', VUndefined)]),
      (''remove'', [(''method'', VStr ''DELETE''), (''params'', VUndefined)]),
      (''query'', [(''method'', VStr ''GET''), (''params'', VUndefined),
                   (''model'', VBool True), (''isArray'', VBool True)]),
      (''one'', [(''method'', VStr ''GET''), (''params'', VUndefined), (''model'', VBool True)]),
      (''store'', [(''method'', VStr ''POST''), (''params'', VUndefined), (''model'', VBool True)])]"
  by (simp add: store_config_def addHttpAction_def query_config_actions
      angular_extend_def toUpperCase_def upper_char_def)


lemma query_config_model: "model_slot query_config = Own (VFun 10)"
  by (simp add: query_config_def addHttpAction_def songs_config_eq)

lemma store_config_model: "model_slot store_config = Own (VFun 10)"
  by (simp add: store_config_def addHttpAction_def query_config_model)

lemma query_members:
  "members (ApiEndpoint base query_config) =
     [(''get'', Bound (Method Request) ''get''), (''update'', Bound (Method Request) ''update''),
      (''save'', Bound (Method Request) ''save''), (''patch'', Bound (Method Request) ''patch''),
      (''remove'', Bound (Method Request) ''remove''),
      (''query'', Bound (Method GetRequestWithModel) ''query'')]"
  by (simp add: ApiEndpoint_def query_config_actions attach_def this_method_def actionMethod_def)


lemma plain_demo_configs:
  "plain_names query_config" "distinct (map fst (actions query_config))"
  "plain_names store_config" "distinct (map fst (actions store_config))"
  by (simp_all add: plain_names_def reserved_names_def query_config_actions store_config_actions)



section \<open>What a request leaves untouched\<close>






lemma request_hooklog: "hooklog (snd (request h action params data w)) = hooklog w"
  by (simp add: request_def split: promise.splits)





section \<open>What reaches the transport\<close>







section \<open>Reading with a model\<close>

lemma then_callback_value: "fst (then_callback h ep r w) = Inr v \<Longrightarrow> v = Undef"
  by (auto simp: then_callback_def split: jsarg.splits prod.splits sum.splits jsval.splits)

lemma songs_instantiate:
  "instantiate demo_host (model_slot (ep_config (ApiEndpoint base songs_config)))
     = Inr [(''afterLoad'', VFun 11), (''beforeSave'', VFun 12)]"
  by (simp add: demo_host_def ApiEndpoint_def songs_config_eq)

lemma bare_instantiate:
  "instantiate demo_host (model_slot (ep_config (ApiEndpoint base bare_config))) = Inr []"
  by (simp add: demo_host_def ApiEndpoint_def bare_config_eq)

lemma instantiateModel_ok:
  assumes "instantiate h (model_slot (ep_config ep)) = Inr m"
    and "map_of (angular_extend m d) ''afterLoad'' = Some (VFun f)"
    and "run h f (angular_extend m d) = Inr m'"
  shows "instantiateModel h ep d w =
           (Inr (VObj m'), w\<lparr>hooklog := hooklog w @ [(''afterLoad'', f, angular_extend m d)]\<rparr>)"
  using assms by (simp add: instantiateModel_def call_method_def)

lemma instantiateModel_no_hook:
  assumes "instantiate h (model_slot (ep_config ep)) = Inr m"
    and "\<forall>f. map_of (angular_extend m d) ''afterLoad'' \<noteq> Some (VFun f)"
  shows "instantiateModel h ep d w = (Inl TypeError, w)"
  using assms
  by (auto simp: instantiateModel_def call_method_def split: option.splits jsval.splits)

lemma map_instantiateModel_ok:
  assumes "instantiate h (model_slot (ep_config ep)) = Inr m"
    and "\<forall>d\<in>set ds. map_of (angular_extend m d) ''afterLoad'' = Some (VFun f)
                    \<and> run h f (angular_extend m d) = Inr (g d)"
  shows "map_instantiateModel h ep ds w =
           (Inr (map (\<lambda>d. VObj (g d)) ds),
            w\<lparr>hooklog := hooklog w @ map (\<lambda>d. (''afterLoad'', f, angular_extend m d)) ds\<rparr>)"
  using assms(2)
proof (induction ds arbitrary: w)
  case Nil
  then show ?case by simp
next
  case (Cons d ds)
  from Cons.prems have d: "map_of (angular_extend m d) ''afterLoad'' = Some (VFun f)"
      "run h f (angular_extend m d) = Inr (g d)" by simp_all
  from Cons.prems have rest: "\<forall>d\<in>set ds. map_of (angular_extend m d) ''afterLoad'' = Some (VFun f)
                    \<and> run h f (angular_extend m d) = Inr (g d)" by simp
  show ?case
    by (simp add: instantiateModel_ok [OF assms(1) d] Cons.IH [OF rest])
qed

lemma map_instantiateModel_stops:
  assumes inst: "instantiate h (model_slot (ep_config ep)) = Inr m"
    and pre: "\<forall>x\<in>set pre. map_of (angular_extend m x) ''afterLoad'' = Some (VFun f)
                    \<and> run h f (angular_extend m x) = Inr (g x)"
    and bad: "\<forall>f'. map_of (angular_extend m d) ''afterLoad'' \<noteq> Some (VFun f')"
  shows "map_instantiateModel h ep (pre @ d # post) w =
           (Inl TypeError,
            w\<lparr>hooklog := hooklog w @ map (\<lambda>x. (''afterLoad'', f, angular_extend m x)) pre\<rparr>)"
  using pre
proof (induction pre arbitrary: w)
  case Nil
  then show ?case by (simp add: instantiateModel_no_hook [OF inst bad])
next
  case (Cons x xs)
  from Cons.prems have x: "map_of (angular_extend m x) ''afterLoad'' = Some (VFun f)"
      "run h f (angular_extend m x) = Inr (g x)" by simp_all
  from Cons.prems have rest: "\<forall>x\<in>set xs. map_of (angular_extend m x) ''afterLoad'' = Some (VFun f)
                    \<and> run h f (angular_extend m x) = Inr (g x)" by simp
  show ?case
    by (simp add: instantiateModel_ok [OF inst x] Cons.IH [OF rest])
qed

lemma read_array:
  assumes inst: "instantiate h (model_slot (ep_config ep)) = Inr m"
    and resp: "transport h action params Undef (heap w) = Resolved response"
    and data: "map_of response ''data'' = Some (VArr ds)"
    and hooks: "\<forall>d\<in>set ds. map_of (angular_extend m d) ''afterLoad'' = Some (VFun f)
                    \<and> run h f (angular_extend m d) = Inr (g d)"
  shows "getRequestWithModel h ep action params w =
     (Resolved Undef,
      w\<lparr>heap := (heap w)(fresh w := VObj (AList.update ''data'' (VArr (map (\<lambda>d. VObj (g d)) ds)) response)),
        fresh := Suc (fresh w),
        sent := sent w @ [(action, params, Undef)],
        hooklog := hooklog w @ map (\<lambda>d. (''afterLoad'', f, angular_extend m d)) ds\<rparr>)"
  using resp data
  by (cases w)
     (simp add: getRequestWithModel_def request_def then_callback_def
        map_instantiateModel_ok [OF inst hooks])

lemma read_array_stops:
  assumes inst: "instantiate h (model_slot (ep_config ep)) = Inr m"
    and resp: "transport h action params Undef (heap w) = Resolved response"
    and data: "map_of response ''data'' = Some (VArr (pre @ d # post))"
    and pre: "\<forall>x\<in>set pre. map_of (angular_extend m x) ''afterLoad'' = Some (VFun f)
                    \<and> run h f (angular_extend m x) = Inr (g x)"
    and bad: "\<forall>f'. map_of (angular_extend m d) ''afterLoad'' \<noteq> Some (VFun f')"
  shows "getRequestWithModel h ep action params w =
     (Rejected TypeError,
      w\<lparr>heap := (heap w)(fresh w := VObj response),
        fresh := Suc (fresh w),
        sent := sent w @ [(action, params, Undef)],
        hooklog := hooklog w @ map (\<lambda>x. (''afterLoad'', f, angular_extend m x)) pre\<rparr>)"
  using resp data
  by (cases w)
     (simp add: getRequestWithModel_def request_def then_callback_def
        map_instantiateModel_stops [OF inst pre bad])

lemma read_single:
  assumes inst: "instantiate h (model_slot (ep_config ep)) = Inr m"
    and resp: "transport h action params Undef (heap w) = Resolved response"
    and data: "get_prop (VObj response) ''data'' = d" "\<forall>xs. d \<noteq> VArr xs"
    and hooks: "map_of (angular_extend m d) ''afterLoad'' = Some (VFun f)"
               "run h f (angular_extend m d) = Inr m'"
  shows "getRequestWithModel h ep action params w =
     (Resolved Undef,
      w\<lparr>heap := (heap w)(fresh w := VObj (AList.update ''data'' (VObj m') response)),
        fresh := Suc (fresh w),
        sent := sent w @ [(action, params, Undef)],
        hooklog := hooklog w @ [(''afterLoad'', f, angular_extend m d)]\<rparr>)"
proof -
  have cb: "then_callback h ep (Ref a) w' =
      (Inr Undef, w'\<lparr>hooklog := hooklog w' @ [(''afterLoad'', f, angular_extend m d)],
                    heap := (heap w')(a := set_prop (heap w' a) ''data'' (VObj m'))\<rparr>)"
    if "get_prop (heap w' a) ''data'' = d" for a w'
    using that data(2) instantiateModel_ok [OF inst hooks, of w']
    by (cases d) (simp_all add: then_callback_def)
  show ?thesis
    using resp data(1)
    by (cases w) (simp add: getRequestWithModel_def request_def cb)
qed

lemma getRequestWithModel_outcome:
  "fst (getRequestWithModel h ep action params w) = Resolved Undef
     \<or> (\<exists>e. fst (getRequestWithModel h ep action params w) = Rejected e)"
proof -
  obtain p w1 where r: "request h action params Undef w = (p, w1)" by (cases "request h action params Undef w")
  show ?thesis
  proof (cases p)
    case (Rejected e)
    with r show ?thesis by (simp add: getRequestWithModel_def)
  next
    case (Resolved v)
    obtain r2 w2 where c: "then_callback h ep v w1 = (r2, w2)" by (cases "then_callback h ep v w1")
    show ?thesis
    proof (cases r2)
      case (Inl e)
      with r Resolved c show ?thesis by (simp add: getRequestWithModel_def)
    next
      case (Inr x)
      with then_callback_value [of h ep v w1 x] c have "x = Undef" by simp
      with r Resolved c Inr show ?thesis by (simp add: getRequestWithModel_def)
    qed
  qed
qed

lemma call_GetRequestWithModel_value:
  "(case call h ep (Method GetRequestWithModel) args w of
      None \<Rightarrow> True
    | Some (Inl e, w') \<Rightarrow> True
    | Some (Inr (Rejected e), w') \<Rightarrow> True
    | Some (Inr (Resolved v), w') \<Rightarrow> v = Undef)"
proof (cases "call h ep (this_method (members ep) Request) [arg args 0, arg args 1] w")
  case None
  then show ?thesis by (simp add: call_GetRequestWithModel)
next
  case (Some x)
  obtain r w1 where x: "x = (r, w1)" by (cases x)
  show ?thesis
  proof (cases r)
    case (Inl e)
    with Some x show ?thesis by (simp add: call_GetRequestWithModel then_on_def)
  next
    case (Inr p)
    show ?thesis
    proof (cases p)
      case (Rejected e)
      with Some x Inr show ?thesis by (simp add: call_GetRequestWithModel then_on_def)
    next
      case (Resolved v)
      obtain r2 w2 where c: "then_callback h ep v w1 = (r2, w2)" by (cases "then_callback h ep v w1")
      show ?thesis
      proof (cases r2)
        case (Inl e)
        with Some x Inr Resolved c show ?thesis by (simp add: call_GetRequestWithModel then_on_def)
      next
        case (Inr y)
        with then_callback_value [of h ep v w1 y] c have "y = Undef" by simp
        with Some x \<open>r = Inr p\<close> Resolved c Inr show ?thesis
          by (simp add: call_GetRequestWithModel then_on_def)
      qed
    qed
  qed
qed

lemma query_member:
  "map_of (members (ApiEndpoint base query_config)) ''query'' = Some (Bound (Method GetRequestWithModel) ''query'')"
  by (simp add: query_members)

lemma query_instantiate:
  "instantiate demo_host (model_slot (ep_config (ApiEndpoint base query_config)))
     = Inr [(''afterLoad'', VFun 11), (''beforeSave'', VFun 12)]"
  by (simp add: demo_host_def ApiEndpoint_def query_config_model)

lemma query_call:
  "map_option fst (call_member demo_host (ApiEndpoint ''api/'' query_config) ''query'' Undef (Ref 0) demo_world)
     = Some (Inr (Resolved Undef))"
proof -
  let ?m = "[(''afterLoad'', VFun 11), (''beforeSave'', VFun 12)]"
  let ?ds = "[VObj [(''id'', VNum 1)], VObj [(''id'', VNum 2)]]"
  let ?g = "\<lambda>d. AList.update ''loaded'' (VBool True) (angular_extend ?m d)"
  have resp: "transport demo_host ''query'' Undef Undef (heap demo_world) = Resolved [(''data'', VArr ?ds)]"
    by (simp add: demo_host_def)
  have data: "map_of [(''data'', VArr ?ds)] ''data'' = Some (VArr ?ds)" by simp
  have hooks: "\<forall>d\<in>set ?ds. map_of (angular_extend ?m d) ''afterLoad'' = Some (VFun 11)
                    \<and> run demo_host 11 (angular_extend ?m d) = Inr (?g d)"
    by (simp add: angular_extend_def demo_host_def)
  have strat: "actionMethod [(''method'', VStr ''GET''), (''params'', VUndefined),
                   (''model'', VBool True), (''isArray'', VBool True)] = GetRequestWithModel"
    by (simp add: actionMethod_def)
  have act: "map_of (actions query_config) ''query'' = Some [(''method'', VStr ''GET''), (''params'', VUndefined),
                   (''model'', VBool True), (''isArray'', VBool True)]"
    by (simp add: query_config_actions)
  have "fst (getRequestWithModel demo_host (ApiEndpoint ''api/'' query_config) ''query'' Undef demo_world)
          = Resolved Undef"
    by (simp add: read_array [OF query_instantiate resp data hooks])
  then show ?thesis
    by (simp add: call_member_plain(2) [OF plain_demo_configs(1,2) act strat] case_prod_unfold)
qed


text \<open>
  Claim C5. The claim does not hold of the code for a read-with-model action: the
  callback given to \<^verbatim>\<open>then\<close> assigns \<^verbatim>\<open>response.data\<close> and returns nothing, so the promise
  the caller receives never resolves with a value. Whatever the host, it resolves with
  \<^verbatim>\<open>undefined\<close> or it rejects. On the concrete host the GET succeeds, the model-wrapped
  payload is stored in the response object of the store, and the caller's promise
  resolves with \<^verbatim>\<open>undefined\<close>. The same is seen through an endpoint member: the action
  \<^verbatim>\<open>query\<close> of \<open>query_config\<close> is bound to \<^verbatim>\<open>getRequestWithModel\<close>, and calling it resolves
  with \<^verbatim>\<open>undefined\<close>. And it holds on every endpoint, whatever \<^verbatim>\<open>this.request\<close> denotes
  there: when \<^verbatim>\<open>getRequestWithModel\<close> returns a promise that resolves, it resolves with
  \<^verbatim>\<open>undefined\<close>.
\<close>

theorem read_with_model_resolves_undefined:
  "(fst (getRequestWithModel h ep action params w) = Resolved Undef
     \<or> (\<exists>e. fst (getRequestWithModel h ep action params w) = Rejected e))
   \<and> getRequestWithModel demo_host (ApiEndpoint ''api/'' songs_config) ''get'' Undef demo_world
     = (Resolved Undef,
        demo_world\<lparr>heap := (heap demo_world)
                     (1 := VObj [(''data'', VObj [(''afterLoad'', VFun 11), (''beforeSave'', VFun 12),
                                                 (''id'', VNum 5), (''loaded'', VBool True)])]),
                   fresh := 2,
                   sent := [(''get'', Undef, Undef)],
                   hooklog := [(''afterLoad'', 11, [(''afterLoad'', VFun 11), (''beforeSave'', VFun 12), (''id'', VNum 5)])]\<rparr>)
   \<and> map_of (members (ApiEndpoint ''api/'' query_config)) ''query''
       = Some (Bound (Method GetRequestWithModel) ''query'')
   \<and> map_option fst (call_member demo_host (ApiEndpoint ''api/'' query_config) ''query'' Undef (Ref 0) demo_world)
       = Some (Inr (Resolved Undef))
   \<and> (case call h ep (Method GetRequestWithModel) args w of
        None \<Rightarrow> True
      | Some (Inl e, w') \<Rightarrow> True
      | Some (Inr (Rejected e), w') \<Rightarrow> True
      | Some (Inr (Resolved v), w') \<Rightarrow> v = Undef)"
proof -
  have "getRequestWithModel demo_host (ApiEndpoint ''api/'' songs_config) ''get'' Undef demo_world
     = (Resolved Undef,
        demo_world\<lparr>heap := (heap demo_world)
                     (1 := VObj [(''data'', VObj [(''afterLoad'', VFun 11), (''beforeSave'', VFun 12),
                                                 (''id'', VNum 5), (''loaded'', VBool True)])]),
                   fresh := 2,
                   sent := [(''get'', Undef, Undef)],
                   hooklog := [(''afterLoad'', 11, [(''afterLoad'', VFun 11), (''beforeSave'', VFun 12), (''id'', VNum 5)])]\<rparr>)"
    by (simp add: getRequestWithModel_def request_def then_callback_def instantiateModel_def
        call_method_def angular_extend_def demo_host_def demo_world_def ApiEndpoint_def songs_config_eq)
  with getRequestWithModel_outcome [of h ep action params w]
    call_GetRequestWithModel_value [of h ep args w]
  show ?thesis
    by (simp add: query_member query_call)
qed


text \<open>
  Claim C7, as stated, fails: \<^verbatim>\<open>angular.extend(model, data)\<close> copies every raw field onto
  the instance, a field named \<^verbatim>\<open>afterLoad\<close> included, and \<^verbatim>\<open>model.afterLoad()\<close> is then
  called without a test. When the transport resolves with the array
  \<^verbatim>\<open>[{id:1},{id:2,afterLoad:1},{id:3}]\<close>, the first element is instantiated and its hook
  runs; the second instance has the number 1 under \<^verbatim>\<open>afterLoad\<close>, the call throws
  TypeError, the third element is never instantiated, \<^verbatim>\<open>response.data\<close> stays the raw
  array and the caller's promise rejects. One hook call has been made for three
  elements.
\<close>

theorem afterLoad_field_rejects_counterexample:
  "map_of (members (ApiEndpoint ''api/'' query_config)) ''query''
       = Some (Bound (Method GetRequestWithModel) ''query'')
   \<and> transport field_host ''query'' Undef Undef (heap demo_world)
       = Resolved [(''data'', VArr [VObj [(''id'', VNum 1)],
                                   VObj [(''id'', VNum 2), (''afterLoad'', VNum 1)],
                                   VObj [(''id'', VNum 3)]])]
   \<and> call_member field_host (ApiEndpoint ''api/'' query_config) ''query'' Undef Undef demo_world
       = Some (Inr (Rejected TypeError),
               demo_world\<lparr>heap := (heap demo_world)
                            (1 := VObj [(''data'', VArr [VObj [(''id'', VNum 1)],
                                                        VObj [(''id'', VNum 2), (''afterLoad'', VNum 1)],
                                                        VObj [(''id'', VNum 3)]])]),
                          fresh := 2,
                          sent := [(''query'', Undef, Undef)],
                          hooklog := [(''afterLoad'', 11,
                                       [(''afterLoad'', VFun 11), (''beforeSave'', VFun 12), (''id'', VNum 1)])]\<rparr>)"
  by (simp add: query_members call_member_def call_Bound call_GetRequestWithModel call_Request
      this_method_def arg_simps arg_numeral request_on_def then_on_def has_own_def request_def
      then_callback_def instantiateModel_def call_method_def angular_extend_def
      field_host_def demo_host_def demo_world_def ep_config_ApiEndpoint query_config_model)


text \<open>
  Claim C7, amended. Take an endpoint whose config has no action named like a property
  the endpoint object already carries, a member of it bound to \<^verbatim>\<open>getRequestWithModel\<close>,
  let the factory of the config build the instance \<open>m\<close> and let the transport resolve
  with \<open>response\<close>.
  \<^item> If \<^verbatim>\<open>response.data\<close> is an array and every element, once its fields are copied onto a
    new instance, has a function \<open>f\<close> under \<^verbatim>\<open>afterLoad\<close> that returns, then \<^verbatim>\<open>response.data\<close>
    becomes the array of the instances in the original order, and \<^verbatim>\<open>afterLoad\<close> has been
    invoked once per element, in order, each time on the instance carrying that
    element's fields.
  \<^item> If \<^verbatim>\<open>response.data\<close> is not an array and the instance built from it has such a
    function, one instance is built and \<^verbatim>\<open>afterLoad\<close> is invoked once.
  \<^item> If \<^verbatim>\<open>response.data\<close> is an array and an element is reached whose instance has no
    function under \<^verbatim>\<open>afterLoad\<close>, the elements before it have been instantiated, with one
    hook call each, none after it is, \<^verbatim>\<open>response.data\<close> is left as the transport gave it
    and the promise rejects with TypeError.
  \<^item> Copying puts every field of the raw object on the instance and keeps the
    instance's other members.
\<close>

theorem read_with_model_instantiates_in_order:
  assumes "plain_names c" and "distinct (map fst (actions c))"
    and "map_of (actions c) name = Some action"
    and "actionMethod action = GetRequestWithModel"
    and "instantiate h (model_slot c) = Inr m"
    and "transport h name params Undef (heap w) = Resolved response"
  shows
   "(\<forall>ds. map_of response ''data'' = Some (VArr ds)
        \<and> (\<forall>d\<in>set ds. map_of (angular_extend m d) ''afterLoad'' = Some (VFun f)
                       \<and> run h f (angular_extend m d) = Inr (g d)) \<longrightarrow>
      call_member h (ApiEndpoint base c) name params data w =
        Some (Inr (Resolved Undef),
         w\<lparr>heap := (heap w)(fresh w := VObj (AList.update ''data'' (VArr (map (\<lambda>d. VObj (g d)) ds)) response)),
           fresh := Suc (fresh w),
           sent := sent w @ [(name, params, Undef)],
           hooklog := hooklog w @ map (\<lambda>d. (''afterLoad'', f, angular_extend m d)) ds\<rparr>))
  \<and> (\<forall>d. get_prop (VObj response) ''data'' = d \<and> (\<forall>xs. d \<noteq> VArr xs)
        \<and> map_of (angular_extend m d) ''afterLoad'' = Some (VFun f)
        \<and> run h f (angular_extend m d) = Inr (g d) \<longrightarrow>
      call_member h (ApiEndpoint base c) name params data w =
        Some (Inr (Resolved Undef),
         w\<lparr>heap := (heap w)(fresh w := VObj (AList.update ''data'' (VObj (g d)) response)),
           fresh := Suc (fresh w),
           sent := sent w @ [(name, params, Undef)],
           hooklog := hooklog w @ [(''afterLoad'', f, angular_extend m d)]\<rparr>))
  \<and> (\<forall>pre d post. map_of response ''data'' = Some (VArr (pre @ d # post))
        \<and> (\<forall>x\<in>set pre. map_of (angular_extend m x) ''afterLoad'' = Some (VFun f)
                       \<and> run h f (angular_extend m x) = Inr (g x))
        \<and> (\<forall>f'. map_of (angular_extend m d) ''afterLoad'' \<noteq> Some (VFun f')) \<longrightarrow>
      call_member h (ApiEndpoint base c) name params data w =
        Some (Inr (Rejected TypeError),
         w\<lparr>heap := (heap w)(fresh w := VObj response),
           fresh := Suc (fresh w),
           sent := sent w @ [(name, params, Undef)],
           hooklog := hooklog w @ map (\<lambda>x. (''afterLoad'', f, angular_extend m x)) pre\<rparr>))
  \<and> (\<forall>d k v. distinct (map fst (own_props d)) \<and> (k, v) \<in> set (own_props d) \<longrightarrow>
        map_of (angular_extend m d) k = Some v)
  \<and> (\<forall>d k. k \<notin> fst ` set (own_props d) \<longrightarrow> map_of (angular_extend m d) k = map_of m k)"
proof -
  let ?ep = "ApiEndpoint base c"
  have inst: "instantiate h (model_slot (ep_config ?ep)) = Inr m"
    using assms(5) by (simp add: ApiEndpoint_def)
  note resp = assms(6)
  have member: "call_member h ?ep name params data w =
      Some (case getRequestWithModel h ?ep name params w of (p, w') \<Rightarrow> (Inr p, w'))"
    by (rule call_member_plain(2) [OF assms(1-4)])
  have A: "call_member h ?ep name params data w =
        Some (Inr (Resolved Undef),
         w\<lparr>heap := (heap w)(fresh w := VObj (AList.update ''data'' (VArr (map (\<lambda>d. VObj (g d)) ds)) response)),
           fresh := Suc (fresh w),
           sent := sent w @ [(name, params, Undef)],
           hooklog := hooklog w @ map (\<lambda>d. (''afterLoad'', f, angular_extend m d)) ds\<rparr>)"
    if "map_of response ''data'' = Some (VArr ds)"
      "\<forall>d\<in>set ds. map_of (angular_extend m d) ''afterLoad'' = Some (VFun f)
                       \<and> run h f (angular_extend m d) = Inr (g d)" for ds
    unfolding member read_array [OF inst resp that] by simp
  have B: "call_member h ?ep name params data w =
        Some (Inr (Resolved Undef),
         w\<lparr>heap := (heap w)(fresh w := VObj (AList.update ''data'' (VObj (g d)) response)),
           fresh := Suc (fresh w),
           sent := sent w @ [(name, params, Undef)],
           hooklog := hooklog w @ [(''afterLoad'', f, angular_extend m d)]\<rparr>)"
    if "get_prop (VObj response) ''data'' = d" "\<forall>xs. d \<noteq> VArr xs"
       "map_of (angular_extend m d) ''afterLoad'' = Some (VFun f)"
       "run h f (angular_extend m d) = Inr (g d)" for d
    unfolding member read_single [OF inst resp that] by simp
  have E: "call_member h ?ep name params data w =
        Some (Inr (Rejected TypeError),
         w\<lparr>heap := (heap w)(fresh w := VObj response),
           fresh := Suc (fresh w),
           sent := sent w @ [(name, params, Undef)],
           hooklog := hooklog w @ map (\<lambda>x. (''afterLoad'', f, angular_extend m x)) pre\<rparr>)"
    if "map_of response ''data'' = Some (VArr (pre @ d # post))"
       "\<forall>x\<in>set pre. map_of (angular_extend m x) ''afterLoad'' = Some (VFun f)
                       \<and> run h f (angular_extend m x) = Inr (g x)"
       "\<forall>f'. map_of (angular_extend m d) ''afterLoad'' \<noteq> Some (VFun f')" for pre d post
    unfolding member read_array_stops [OF inst resp that] by simp
  have C: "\<forall>d k v. distinct (map fst (own_props d)) \<and> (k, v) \<in> set (own_props d) \<longrightarrow>
        map_of (angular_extend m d) k = Some v"
    by (auto simp: angular_extend_member)
  have D: "\<forall>d k. k \<notin> fst ` set (own_props d) \<longrightarrow> map_of (angular_extend m d) k = map_of m k"
    by (auto simp: angular_extend_other)
  from A B E C D show ?thesis by blast
qed

theorem read_with_model_instantiates_in_order_witness:
  "plain_names store_config \<and> distinct (map fst (actions store_config))
   \<and> map_of (actions store_config) ''query''
       = Some [(''method'', VStr ''GET''), (''params'', VUndefined), (''model'', VBool True), (''isArray'', VBool True)]
   \<and> actionMethod [(''method'', VStr ''GET''), (''params'', VUndefined), (''model'', VBool True), (''isArray'', VBool True)]
       = GetRequestWithModel
   \<and> map_of (actions store_config) ''one''
       = Some [(''method'', VStr ''GET''), (''params'', VUndefined), (''model'', VBool True)]
   \<and> actionMethod [(''method'', VStr ''GET''), (''params'', VUndefined), (''model'', VBool True)]
       = GetRequestWithModel
   \<and> instantiate demo_host (model_slot store_config) = Inr [(''afterLoad'', VFun 11), (''beforeSave'', VFun 12)]
   \<and> transport demo_host ''query'' Undef Undef (heap demo_world)
     = Resolved [(''data'', VArr [VObj [(''id'', VNum 1)], VObj [(''id'', VNum 2)]])]
   \<and> call_member demo_host (ApiEndpoint ''api/'' store_config) ''query'' Undef Undef demo_world
     = Some (Inr (Resolved Undef),
        demo_world\<lparr>heap := (heap demo_world)
           (1 := VObj [(''data'', VArr
                 [VObj [(''afterLoad'', VFun 11), (''beforeSave'', VFun 12), (''id'', VNum 1), (''loaded'', VBool True)],
                  VObj [(''afterLoad'', VFun 11), (''beforeSave'', VFun 12), (''id'', VNum 2), (''loaded'', VBool True)]])]),
          fresh := 2,
          sent := [(''query'', Undef, Undef)],
          hooklog := [(''afterLoad'', 11, [(''afterLoad'', VFun 11), (''beforeSave'', VFun 12), (''id'', VNum 1)]),
                      (''afterLoad'', 11, [(''afterLoad'', VFun 11), (''beforeSave'', VFun 12), (''id'', VNum 2)])]\<rparr>)
   \<and> transport demo_host ''one'' Undef Undef (heap demo_world)
     = Resolved [(''data'', VObj [(''id'', VNum 5)])]
   \<and> call_member demo_host (ApiEndpoint ''api/'' store_config) ''one'' Undef Undef demo_world
     = Some (Inr (Resolved Undef),
        demo_world\<lparr>heap := (heap demo_world)
           (1 := VObj [(''data'',
                  VObj [(''afterLoad'', VFun 11), (''beforeSave'', VFun 12), (''id'', VNum 5), (''loaded'', VBool True)])]),
          fresh := 2,
          sent := [(''one'', Undef, Undef)],
          hooklog := [(''afterLoad'', 11, [(''afterLoad'', VFun 11), (''beforeSave'', VFun 12), (''id'', VNum 5)])]\<rparr>)
   \<and> instantiate field_host (model_slot store_config) = Inr [(''afterLoad'', VFun 11), (''beforeSave'', VFun 12)]
   \<and> transport field_host ''query'' Undef Undef (heap demo_world)
     = Resolved [(''data'', VArr ([VObj [(''id'', VNum 1)]]
                                  @ VObj [(''id'', VNum 2), (''afterLoad'', VNum 1)] # [VObj [(''id'', VNum 3)]]))]
   \<and> map_of (angular_extend [(''afterLoad'', VFun 11), (''beforeSave'', VFun 12)]
                (VObj [(''id'', VNum 2), (''afterLoad'', VNum 1)])) ''afterLoad'' = Some (VNum 1)
   \<and> call_member field_host (ApiEndpoint ''api/'' store_config) ''query'' Undef Undef demo_world
     = Some (Inr (Rejected TypeError),
        demo_world\<lparr>heap := (heap demo_world)
           (1 := VObj [(''data'', VArr [VObj [(''id'', VNum 1)],
                                       VObj [(''id'', VNum 2), (''afterLoad'', VNum 1)],
                                       VObj [(''id'', VNum 3)]])]),
          fresh := 2,
          sent := [(''query'', Undef, Undef)],
          hooklog := [(''afterLoad'', 11, [(''afterLoad'', VFun 11), (''beforeSave'', VFun 12), (''id'', VNum 1)])]\<rparr>)
   \<and> map_of (angular_extend [(''afterLoad'', VFun 11), (''beforeSave'', VFun 12)] (VObj [(''id'', VNum 5)])) ''id''
     = Some (VNum 5)
   \<and> ''beforeSave'' \<notin> fst ` set (own_props (VObj [(''id'', VNum 5)]))
   \<and> map_of (angular_extend [(''afterLoad'', VFun 11), (''beforeSave'', VFun 12)] (VObj [(''id'', VNum 5)]))
        ''beforeSave''
     = Some (VFun 12)"
proof -
  let ?m = "[(''afterLoad'', VFun 11), (''beforeSave'', VFun 12)]"
  let ?ds = "[VObj [(''id'', VNum 1)], VObj [(''id'', VNum 2)]]"
  let ?d = "VObj [(''id'', VNum 5)]"
  let ?bad = "VObj [(''id'', VNum 2), (''afterLoad'', VNum 1)]"
  let ?pre = "[VObj [(''id'', VNum 1)]]"
  let ?post = "[VObj [(''id'', VNum 3)]]"
  let ?g = "\<lambda>d. AList.update ''loaded'' (VBool True) (angular_extend ?m d)"
  let ?query = "[(''method'', VStr ''GET''), (''params'', VUndefined), (''model'', VBool True), (''isArray'', VBool True)]"
  let ?one = "[(''method'', VStr ''GET''), (''params'', VUndefined), (''model'', VBool True)]"
  note plain = plain_demo_configs(3,4)
  have q: "map_of (actions store_config) ''query'' = Some ?query"
    and o: "map_of (actions store_config) ''one'' = Some ?one"
    by (simp_all add: store_config_actions)
  have sq: "actionMethod ?query = GetRequestWithModel" and so: "actionMethod ?one = GetRequestWithModel"
    by (simp_all add: actionMethod_def)
  have inst: "instantiate demo_host (model_slot store_config) = Inr ?m"
    and insf: "instantiate field_host (model_slot store_config) = Inr ?m"
    by (simp_all add: demo_host_def field_host_def store_config_model)
  have resp: "transport demo_host ''query'' Undef Undef (heap demo_world) = Resolved [(''data'', VArr ?ds)]"
    by (simp add: demo_host_def)
  have resp1: "transport demo_host ''one'' Undef Undef (heap demo_world) = Resolved [(''data'', ?d)]"
    by (simp add: demo_host_def)
  have respf: "transport field_host ''query'' Undef Undef (heap demo_world)
      = Resolved [(''data'', VArr (?pre @ ?bad # ?post))]"
    by (simp add: field_host_def)
  have data: "map_of [(''data'', VArr ?ds)] ''data'' = Some (VArr ?ds)" by simp
  have hooks: "\<forall>d\<in>set ?ds. map_of (angular_extend ?m d) ''afterLoad'' = Some (VFun 11)
                    \<and> run demo_host 11 (angular_extend ?m d) = Inr (?g d)"
    by (simp add: angular_extend_def demo_host_def)
  have data1: "get_prop (VObj [(''data'', ?d)]) ''data'' = ?d" "\<forall>xs. ?d \<noteq> VArr xs" by simp_all
  have hook1: "map_of (angular_extend ?m ?d) ''afterLoad'' = Some (VFun 11)"
     "run demo_host 11 (angular_extend ?m ?d) = Inr (?g ?d)"
    by (simp_all add: angular_extend_def demo_host_def)
  have dataf: "map_of [(''data'', VArr (?pre @ ?bad # ?post))] ''data'' = Some (VArr (?pre @ ?bad # ?post))"
    by simp
  have hookf: "\<forall>x\<in>set ?pre. map_of (angular_extend ?m x) ''afterLoad'' = Some (VFun 11)
                    \<and> run field_host 11 (angular_extend ?m x) = Inr (?g x)"
    by (simp add: angular_extend_def field_host_def demo_host_def)
  have badf: "map_of (angular_extend ?m ?bad) ''afterLoad'' = Some (VNum 1)"
    by (simp add: angular_extend_def)
  then have nof: "\<forall>f'. map_of (angular_extend ?m ?bad) ''afterLoad'' \<noteq> Some (VFun f')" by simp
  have own: "distinct (map fst (own_props ?d))" "(''id'', VNum 5) \<in> set (own_props ?d)" by simp_all
  from read_with_model_instantiates_in_order [OF plain q sq inst resp, of 11 ?g "''api/''" Undef]
    data hooks
  have A: "call_member demo_host (ApiEndpoint ''api/'' store_config) ''query'' Undef Undef demo_world =
        Some (Inr (Resolved Undef),
         demo_world\<lparr>heap := (heap demo_world)(fresh demo_world :=
              VObj (AList.update ''data'' (VArr (map (\<lambda>d. VObj (?g d)) ?ds)) [(''data'', VArr ?ds)])),
           fresh := Suc (fresh demo_world),
           sent := sent demo_world @ [(''query'', Undef, Undef)],
           hooklog := hooklog demo_world @ map (\<lambda>d. (''afterLoad'', 11, angular_extend ?m d)) ?ds\<rparr>)"
    by blast
  from read_with_model_instantiates_in_order [OF plain o so inst resp1, of 11 ?g "''api/''" Undef]
    data1 hook1
  have B: "call_member demo_host (ApiEndpoint ''api/'' store_config) ''one'' Undef Undef demo_world =
        Some (Inr (Resolved Undef),
         demo_world\<lparr>heap := (heap demo_world)(fresh demo_world :=
              VObj (AList.update ''data'' (VObj (?g ?d)) [(''data'', ?d)])),
           fresh := Suc (fresh demo_world),
           sent := sent demo_world @ [(''one'', Undef, Undef)],
           hooklog := hooklog demo_world @ [(''afterLoad'', 11, angular_extend ?m ?d)]\<rparr>)"
    by blast
  from read_with_model_instantiates_in_order [OF plain q sq insf respf, of 11 ?g "''api/''" Undef]
    dataf hookf nof
  have E: "call_member field_host (ApiEndpoint ''api/'' store_config) ''query'' Undef Undef demo_world =
        Some (Inr (Rejected TypeError),
         demo_world\<lparr>heap := (heap demo_world)(fresh demo_world := VObj [(''data'', VArr (?pre @ ?bad # ?post))]),
           fresh := Suc (fresh demo_world),
           sent := sent demo_world @ [(''query'', Undef, Undef)],
           hooklog := hooklog demo_world @ map (\<lambda>x. (''afterLoad'', 11, angular_extend ?m x)) ?pre\<rparr>)"
    by blast
  from read_with_model_instantiates_in_order [OF plain o so inst resp1, of 11 ?g] own
  have C: "map_of (angular_extend ?m ?d) ''id'' = Some (VNum 5)"
    by blast
  have other: "''beforeSave'' \<notin> fst ` set (own_props ?d)" by simp
  from read_with_model_instantiates_in_order [OF plain o so inst resp1, of 11 ?g] other
  have D: "map_of (angular_extend ?m ?d) ''beforeSave'' = map_of ?m ''beforeSave''"
    by blast
  from plain q o sq so inst insf resp resp1 respf badf A B E C D show ?thesis
    by (simp add: angular_extend_def demo_world_def)
qed



section \<open>Writing with a model\<close>


lemma save_hook_absent:
  assumes "\<not> truthy (get_prop (heap w a) ''beforeSave'')"
  shows "saveRequestWithModel h action params (Ref a) w =
          (case request h action params (Ref (fresh w))
                  (w\<lparr>heap := (heap w)(fresh w := heap w a), fresh := Suc (fresh w)\<rparr>) of
             (p, w') \<Rightarrow> (Inr p, w'))"
  using assms
  by (simp add: saveRequestWithModel_def before_request_def angular_copy_def)


lemma save_no_payload:
  "saveRequestWithModel h action params Undef w =
     (case request h action params Undef w of (p, w') \<Rightarrow> (Inr p, w'))"
  by (simp add: saveRequestWithModel_def before_request_def angular_copy_def)

lemma save_text_payload:
  "saveRequestWithModel h action params (Text s) w =
     (case request h action params (Text s) w of (p, w') \<Rightarrow> (Inr p, w'))"
  by (simp add: saveRequestWithModel_def before_request_def angular_copy_def)










section \<open>Which hooks are guarded\<close>

lemma save_hooklog_changes:
  "hooklog (snd (saveRequestWithModel h action params data w)) \<noteq> hooklog w \<Longrightarrow>
     \<exists>a. data = Ref a \<and> truthy (get_prop (heap w a) ''beforeSave'')"
proof (cases data)
  case Undef
  assume "hooklog (snd (saveRequestWithModel h action params data w)) \<noteq> hooklog w"
  with Undef show ?thesis by (simp add: save_no_payload case_prod_unfold request_hooklog)
next
  case (Text s)
  assume "hooklog (snd (saveRequestWithModel h action params data w)) \<noteq> hooklog w"
  with Text show ?thesis by (simp add: save_text_payload case_prod_unfold request_hooklog)
next
  case (Ref a)
  assume ch: "hooklog (snd (saveRequestWithModel h action params data w)) \<noteq> hooklog w"
  show ?thesis
  proof (cases "truthy (get_prop (heap w a) ''beforeSave'')")
    case True
    with Ref show ?thesis by simp
  next
    case False
    with Ref ch show ?thesis by (simp add: save_hook_absent case_prod_unfold request_hooklog)
  qed
qed


text \<open>
  Claim C4, as stated, fails on the read path: \<^verbatim>\<open>instantiateModel\<close> calls \<^verbatim>\<open>model.afterLoad()\<close>
  with no test. With a constructor whose instances have no \<^verbatim>\<open>afterLoad\<close>, instantiating
  \<^verbatim>\<open>{id:5}\<close> throws TypeError and the read-with-model promise rejects: the call is not
  skipped.
\<close>

theorem missing_afterLoad_counterexample:
  "instantiate demo_host (model_slot (ep_config (ApiEndpoint ''api/'' bare_config))) = Inr []
   \<and> get_prop (VObj (angular_extend [] (VObj [(''id'', VNum 5)]))) ''afterLoad'' = VUndefined
   \<and> instantiateModel demo_host (ApiEndpoint ''api/'' bare_config) (VObj [(''id'', VNum 5)]) demo_world
       = (Inl TypeError, demo_world)
   \<and> fst (getRequestWithModel demo_host (ApiEndpoint ''api/'' bare_config) ''get'' Undef demo_world)
       = Rejected TypeError"
  by (simp add: bare_instantiate instantiateModel_def call_method_def angular_extend_def
      getRequestWithModel_def request_def then_callback_def demo_host_def
      ep_config_ApiEndpoint ApiEndpoint_def bare_config_eq)


text \<open>
  Claim C4, amended. Only \<^verbatim>\<open>beforeSave\<close> is presence-checked. On the write path, with no
  payload, or with a payload whose copy has no truthy \<^verbatim>\<open>beforeSave\<close>, no hook is called and
  the request is made; a hook is invoked there only for a payload that has one. On the
  read path \<^verbatim>\<open>afterLoad\<close> is called without a test: an instance that has the function
  gets it invoked once, an instance that has none makes \<^verbatim>\<open>instantiateModel\<close> throw
  TypeError.
\<close>

theorem only_beforeSave_is_presence_checked:
  "saveRequestWithModel h action params Undef w =
       (case request h action params Undef w of (p, w') \<Rightarrow> (Inr p, w'))
   \<and> (\<not> truthy (get_prop (heap w a) ''beforeSave'') \<longrightarrow>
        saveRequestWithModel h action params (Ref a) w =
          (case request h action params (Ref (fresh w))
                  (w\<lparr>heap := (heap w)(fresh w := heap w a), fresh := Suc (fresh w)\<rparr>) of
             (p, w') \<Rightarrow> (Inr p, w')))
   \<and> (hooklog (snd (saveRequestWithModel h action params data w)) \<noteq> hooklog w \<longrightarrow>
        (\<exists>b. data = Ref b \<and> truthy (get_prop (heap w b) ''beforeSave'')))
   \<and> (instantiate h (model_slot (ep_config ep)) = Inr m
        \<and> (\<forall>f. map_of (angular_extend m d) ''afterLoad'' \<noteq> Some (VFun f)) \<longrightarrow>
        instantiateModel h ep d w = (Inl TypeError, w))
   \<and> (\<forall>f m'. instantiate h (model_slot (ep_config ep)) = Inr m
        \<and> map_of (angular_extend m d) ''afterLoad'' = Some (VFun f)
        \<and> run h f (angular_extend m d) = Inr m' \<longrightarrow>
        instantiateModel h ep d w =
          (Inr (VObj m'), w\<lparr>hooklog := hooklog w @ [(''afterLoad'', f, angular_extend m d)]\<rparr>))"
  using save_hooklog_changes [of h action params data w]
  by (auto simp: save_no_payload save_hook_absent instantiateModel_no_hook instantiateModel_ok
      simp del: truthy.simps)

theorem only_beforeSave_is_presence_checked_witness:
  "fst (saveRequestWithModel demo_host ''save'' Undef Undef demo_world) = Inr (Resolved (Ref 1))
   \<and> sent (snd (saveRequestWithModel demo_host ''save'' Undef Undef demo_world)) = [(''save'', Undef, Undef)]
   \<and> hooklog (snd (saveRequestWithModel demo_host ''save'' Undef Undef demo_world)) = []
   \<and> \<not> truthy (get_prop (heap (demo_world\<lparr>heap := (\<lambda>a. VObj [(''name'', VStr ''x'')])\<rparr>) 0) ''beforeSave'')
   \<and> fst (saveRequestWithModel demo_host ''save'' Undef (Ref 0)
             (demo_world\<lparr>heap := (\<lambda>a. VObj [(''name'', VStr ''x'')])\<rparr>)) = Inr (Resolved (Ref 2))
   \<and> sent (snd (saveRequestWithModel demo_host ''save'' Undef (Ref 0)
             (demo_world\<lparr>heap := (\<lambda>a. VObj [(''name'', VStr ''x'')])\<rparr>))) = [(''save'', Undef, Ref 1)]
   \<and> hooklog (snd (saveRequestWithModel demo_host ''save'' Undef (Ref 0)
             (demo_world\<lparr>heap := (\<lambda>a. VObj [(''name'', VStr ''x'')])\<rparr>))) = []
   \<and> hooklog (snd (saveRequestWithModel demo_host ''save'' Undef (Ref 0) demo_world)) \<noteq> hooklog demo_world
   \<and> truthy (get_prop (heap demo_world 0) ''beforeSave'')
   \<and> instantiate demo_host (model_slot (ep_config (ApiEndpoint ''api/'' bare_config))) = Inr []
   \<and> map_of (angular_extend [] (VObj [(''id'', VNum 5)])) ''afterLoad'' = None
   \<and> instantiateModel demo_host (ApiEndpoint ''api/'' bare_config) (VObj [(''id'', VNum 5)]) demo_world
        = (Inl TypeError, demo_world)
   \<and> instantiate demo_host (model_slot (ep_config (ApiEndpoint ''api/'' songs_config)))
        = Inr [(''afterLoad'', VFun 11), (''beforeSave'', VFun 12)]
   \<and> map_of (angular_extend [(''afterLoad'', VFun 11), (''beforeSave'', VFun 12)] (VObj [(''id'', VNum 5)])) ''afterLoad''
        = Some (VFun 11)
   \<and> run demo_host 11 (angular_extend [(''afterLoad'', VFun 11), (''beforeSave'', VFun 12)] (VObj [(''id'', VNum 5)]))
        = Inr [(''afterLoad'', VFun 11), (''beforeSave'', VFun 12), (''id'', VNum 5), (''loaded'', VBool True)]
   \<and> instantiateModel demo_host (ApiEndpoint ''api/'' songs_config) (VObj [(''id'', VNum 5)]) demo_world
        = (Inr (VObj [(''afterLoad'', VFun 11), (''beforeSave'', VFun 12), (''id'', VNum 5), (''loaded'', VBool True)]),
           demo_world\<lparr>hooklog := [(''afterLoad'', 11, [(''afterLoad'', VFun 11), (''beforeSave'', VFun 12), (''id'', VNum 5)])]\<rparr>)"
proof -
  let ?plain = "demo_world\<lparr>heap := (\<lambda>a. VObj [(''name'', VStr ''x'')])\<rparr>"
  let ?m = "[(''afterLoad'', VFun 11), (''beforeSave'', VFun 12)]"
  let ?d = "VObj [(''id'', VNum 5)]"
  note none = only_beforeSave_is_presence_checked [of demo_host "''save''" Undef demo_world 0 Undef
      "ApiEndpoint ''api/'' bare_config" "[]" ?d, THEN conjunct1]
  note plain = only_beforeSave_is_presence_checked [of demo_host "''save''" Undef ?plain 0 "(Ref 0)"
      "ApiEndpoint ''api/'' bare_config" "[]" ?d, THEN conjunct2, THEN conjunct1]
  note changed = only_beforeSave_is_presence_checked [of demo_host "''save''" Undef demo_world 0 "(Ref 0)"
      "ApiEndpoint ''api/'' bare_config" "[]" ?d, THEN conjunct2, THEN conjunct2, THEN conjunct1]
  note bare = only_beforeSave_is_presence_checked [of demo_host "''save''" Undef demo_world 0 "(Ref 0)"
      "ApiEndpoint ''api/'' bare_config" "[]" ?d, THEN conjunct2, THEN conjunct2, THEN conjunct2, THEN conjunct1]
  note full = only_beforeSave_is_presence_checked [of demo_host "''save''" Undef demo_world 0 "(Ref 0)"
      "ApiEndpoint ''api/'' songs_config" ?m ?d, THEN conjunct2, THEN conjunct2, THEN conjunct2, THEN conjunct2]
  have nohook: "\<not> truthy (get_prop (heap ?plain 0) ''beforeSave'')" by simp
  have log: "hooklog (snd (saveRequestWithModel demo_host ''save'' Undef (Ref 0) demo_world)) \<noteq> hooklog demo_world"
    by (simp add: saveRequestWithModel_def before_request_def angular_copy_def call_method_def request_def demo_world_def demo_host_def)
  have ext: "angular_extend [] ?d = [(''id'', VNum 5)]"
       "angular_extend ?m ?d = [(''afterLoad'', VFun 11), (''beforeSave'', VFun 12), (''id'', VNum 5)]"
    by (simp_all add: angular_extend_def)
  have r1: "run demo_host 11 [(''afterLoad'', VFun 11), (''beforeSave'', VFun 12), (''id'', VNum 5)]
      = Inr [(''afterLoad'', VFun 11), (''beforeSave'', VFun 12), (''id'', VNum 5), (''loaded'', VBool True)]"
    by (simp add: demo_host_def)
  from none have A: "fst (saveRequestWithModel demo_host ''save'' Undef Undef demo_world) = Inr (Resolved (Ref 1))
      \<and> sent (snd (saveRequestWithModel demo_host ''save'' Undef Undef demo_world)) = [(''save'', Undef, Undef)]
      \<and> hooklog (snd (saveRequestWithModel demo_host ''save'' Undef Undef demo_world)) = []"
    by (simp add: request_def demo_host_def demo_world_def)
  from plain [rule_format, OF nohook]
  have B: "fst (saveRequestWithModel demo_host ''save'' Undef (Ref 0) ?plain) = Inr (Resolved (Ref 2))
      \<and> sent (snd (saveRequestWithModel demo_host ''save'' Undef (Ref 0) ?plain)) = [(''save'', Undef, Ref 1)]
      \<and> hooklog (snd (saveRequestWithModel demo_host ''save'' Undef (Ref 0) ?plain)) = []"
    by (simp add: request_def demo_host_def demo_world_def)
  from changed [rule_format, OF log] have C: "truthy (get_prop (heap demo_world 0) ''beforeSave'')" by simp
  from bare have D: "instantiateModel demo_host (ApiEndpoint ''api/'' bare_config) ?d demo_world
        = (Inl TypeError, demo_world)"
    by (simp add: bare_instantiate ext)
  from full [rule_format, of 11 "[(''afterLoad'', VFun 11), (''beforeSave'', VFun 12), (''id'', VNum 5), (''loaded'', VBool True)]"]
  have E: "instantiateModel demo_host (ApiEndpoint ''api/'' songs_config) ?d demo_world
        = (Inr (VObj [(''afterLoad'', VFun 11), (''beforeSave'', VFun 12), (''id'', VNum 5), (''loaded'', VBool True)]),
           demo_world\<lparr>hooklog := hooklog demo_world @ [(''afterLoad'', 11, [(''afterLoad'', VFun 11), (''beforeSave'', VFun 12), (''id'', VNum 5)])]\<rparr>)"
    by (simp add: songs_instantiate ext r1)
  from A B C D E log show ?thesis
    by (simp add: songs_instantiate bare_instantiate ext r1) (simp add: demo_world_def)
qed


end
